theory Spec2Isabelle
  imports Complex_Main "HOL-Library.AList"
begin

section \<open>Python values\<close>

text \<open>
  The client is dynamically typed: its annotations are not enforced, and its validation
  inspects the run-time type of what it is given. A value is one of the built-in kinds the
  client can be handed. A float is a binary64 value: a finite one is the rational it
  denotes, and the three special values are kept apart because every comparison with NaN
  is false.
\<close>

datatype pyfloat = Finite rat | PosInf | NegInf | NaN

text \<open>
  A \<^verbatim>\<open>datetime\<close> holds its calendar fields; \<open>tzinfo\<close> is the UTC offset in seconds
  of an aware datetime and \<open>None\<close> for a naive one. Its constructor accepts only the
  fields that \<open>well_formed\<close> (below) describes, so no other datetime exists.
\<close>

datatype datetime =
  Datetime (year: int) (month: int) (day: int) (hour: int) (minute: int) (second: int)
    (microsecond: int) (tzinfo: "int option")

datatype pyval =
    PNone
  | PBool bool
  | PInt int
  | PFloat pyfloat
  | PStr string
  | PDatetime datetime
  | PSession nat

text \<open>Truth value testing, as \<^verbatim>\<open>not device_id\<close> and \<^verbatim>\<open>if charge\<close> use it.\<close>

fun truthy :: "pyval \<Rightarrow> bool" where
  "truthy PNone = False"
| "truthy (PBool b) = b"
| "truthy (PInt n) = (n \<noteq> 0)"
| "truthy (PFloat f) = (f \<noteq> Finite 0)"
| "truthy (PStr s) = (s \<noteq> [])"
| "truthy (PDatetime d) = True"
| "truthy (PSession s) = True"

text \<open>\<^verbatim>\<open>isinstance(x, (int, float))\<close>: \<^verbatim>\<open>bool\<close> is a subclass of \<^verbatim>\<open>int\<close>.\<close>

fun isinstance_int_float :: "pyval \<Rightarrow> bool" where
  "isinstance_int_float (PBool b) = True"
| "isinstance_int_float (PInt n) = True"
| "isinstance_int_float (PFloat f) = True"
| "isinstance_int_float v = False"

text \<open>
  The number a numeric value compares as: \<^verbatim>\<open>True\<close> is 1 and \<^verbatim>\<open>False\<close> is 0. NaN and
  the infinities have none, and neither has a value that is not a number.
\<close>

fun number_of :: "pyval \<Rightarrow> rat option" where
  "number_of (PBool b) = Some (if b then 1 else 0)"
| "number_of (PInt n) = Some (of_int n)"
| "number_of (PFloat (Finite r)) = Some r"
| "number_of v = None"

text \<open>
  The chained comparison \<^verbatim>\<open>lo <= x <= hi\<close> for integer bounds. It is false for NaN and
  for both infinities; the client evaluates it on numbers only (the \<^verbatim>\<open>isinstance\<close> test
  comes first and short-circuits).
\<close>

definition between :: "int \<Rightarrow> pyval \<Rightarrow> int \<Rightarrow> bool" where
  "between lo x hi =
     (case number_of x of None \<Rightarrow> False | Some r \<Rightarrow> of_int lo \<le> r \<and> r \<le> of_int hi)"

text \<open>\<^verbatim>\<open>str(n)\<close> for an integer: decimal digits, with a minus sign when negative.\<close>

fun str_nat :: "nat \<Rightarrow> string" where
  "str_nat n =
     (if n < 10 then [''0123456789'' ! n]
      else str_nat (n div 10) @ [''0123456789'' ! (n mod 10)])"

declare str_nat.simps [simp del]

definition str_int :: "int \<Rightarrow> string" where
  "str_int i = (if i < 0 then CHR ''-'' # str_nat (nat (- i)) else str_nat (nat i))"

text \<open>\<^verbatim>\<open>s.rstrip('/')\<close>: every trailing slash is removed.\<close>

definition rstrip_slash :: "string \<Rightarrow> string" where
  "rstrip_slash s = rev (dropWhile (\<lambda>c. c = CHR ''/'') (rev s))"

section \<open>Exceptions\<close>

text \<open>
  The exceptions a call can end with. \<open>ValueError\<close> and \<open>ClientError\<close> are raised by the
  client itself, with the message it gives them. \<open>TypeError\<close> and \<open>AttributeError\<close> come
  from the interpreter (argument binding, a method looked up on a value that lacks it).
  The others are what the HTTP library raises from inside the request and the client
  passes on.
\<close>

datatype exn =
    TypeError
  | AttributeError
  | ValueError string
  | ClientError string
  | ClientConnectorError string
  | ClientConnectorDNSError string
  | TimeoutError
  | CancelledError

text \<open>
  \<^verbatim>\<open>isinstance(e, aiohttp.ClientError)\<close>, which is what a handler
  \<^verbatim>\<open>except aiohttp.ClientError\<close> tests. In the HTTP library \<^verbatim>\<open>ClientConnectorError\<close>
  (connection refused) derives from \<^verbatim>\<open>ClientOSError\<close>, that from
  \<^verbatim>\<open>ClientConnectionError\<close>, that from \<^verbatim>\<open>ClientError\<close>; \<^verbatim>\<open>ClientConnectorDNSError\<close>
  derives from \<^verbatim>\<open>ClientConnectorError\<close>. The total timeout of a request raises
  \<^verbatim>\<open>asyncio.TimeoutError\<close>, which is not a \<^verbatim>\<open>ClientError\<close>.
\<close>

fun isinstance_ClientError :: "exn \<Rightarrow> bool" where
  "isinstance_ClientError (ClientError m) = True"
| "isinstance_ClientError (ClientConnectorError m) = True"
| "isinstance_ClientError (ClientConnectorDNSError m) = True"
| "isinstance_ClientError e = False"

section \<open>Binary64 arithmetic for the timestamp\<close>

text \<open>
  \<^verbatim>\<open>int(timestamp.timestamp() * 1000)\<close> is computed in binary64. A finite float is the
  rational it denotes; an operation returns the exact result rounded to the nearest
  float, ties to the even significand. The magnitudes met here (seconds and milliseconds
  of a datetime, whose year is between 1 and 9999) stay far below the overflow threshold,
  so no infinity arises.
\<close>

fun bit_length :: "nat \<Rightarrow> nat" where
  "bit_length n = (if n = 0 then 0 else Suc (bit_length (n div 2)))"

declare bit_length.simps [simp del]

text \<open>For \<open>x > 0\<close>, the exponent \<open>e\<close> with \<open>2 ^ e \<le> x < 2 ^ (e + 1)\<close>.\<close>

definition floor_log2 :: "rat \<Rightarrow> int" where
  "floor_log2 x =
     (if 1 \<le> x then int (bit_length (nat \<lfloor>x\<rfloor>)) - 1
      else - int (bit_length (nat (\<lceil>1 / x\<rceil> - 1))))"

definition pow2 :: "int \<Rightarrow> rat" where
  "pow2 e = (if 0 \<le> e then 2 ^ nat e else 1 / 2 ^ nat (- e))"

definition round_half_even :: "rat \<Rightarrow> int" where
  "round_half_even x =
     (let f = \<lfloor>x\<rfloor>; d = x - of_int f
      in if d < 1 / 2 then f else if 1 / 2 < d then f + 1
         else if even f then f else f + 1)"

text \<open>
  Rounding to binary64: 53 significant bits, and below \<open>2 ^ - 1022\<close> the fixed spacing
  \<open>2 ^ - 1074\<close> of the subnormal numbers.
\<close>

definition round_binary64 :: "rat \<Rightarrow> rat" where
  "round_binary64 x =
     (if x = 0 then 0
      else let e = max (floor_log2 \<bar>x\<bar> - 52) (- 1074)
           in of_int (round_half_even (x / pow2 e)) * pow2 e)"

text \<open>\<^verbatim>\<open>int(x)\<close> of a finite float truncates towards zero.\<close>

definition float_to_int :: "rat \<Rightarrow> int" where
  "float_to_int x = (if 0 \<le> x then \<lfloor>x\<rfloor> else \<lceil>x\<rceil>)"

text \<open>
  The proleptic Gregorian ordinal of a date, as the \<^verbatim>\<open>datetime\<close> module computes it
  (day 1 is 0001-01-01; 1970-01-01 is day 719163).
\<close>

definition is_leap :: "int \<Rightarrow> bool" where
  "is_leap y = (y mod 4 = 0 \<and> (y mod 100 \<noteq> 0 \<or> y mod 400 = 0))"

definition days_before_year :: "int \<Rightarrow> int" where
  "days_before_year y = (y - 1) * 365 + (y - 1) div 4 - (y - 1) div 100 + (y - 1) div 400"

text \<open>
  The two tables of the module are indexed by a month from 1 to 12; for any other index
  (which no datetime has) the functions are 0.
\<close>

definition days_in_month :: "int \<Rightarrow> int \<Rightarrow> int" where
  "days_in_month y m =
     (if m = 2 \<and> is_leap y then 29
      else if 1 \<le> m \<and> m \<le> 12
        then [0, 31, 28, 31, 30, 31, 30, 31, 31, 30, 31, 30, 31] ! nat m
      else 0)"

definition days_before_month :: "int \<Rightarrow> int \<Rightarrow> int" where
  "days_before_month y m =
     (if 1 \<le> m \<and> m \<le> 12
      then [0, 0, 31, 59, 90, 120, 151, 181, 212, 243, 273, 304, 334] ! nat m
             + (if 2 < m \<and> is_leap y then 1 else 0)
      else 0)"

text \<open>
  What the constructor of \<^verbatim>\<open>datetime\<close> checks (it raises \<^verbatim>\<open>ValueError\<close> otherwise):
  the year from 1 to 9999, a day that the month has, the time of day in range, and a UTC
  offset strictly between minus and plus one day.
\<close>

definition well_formed :: "datetime \<Rightarrow> bool" where
  "well_formed d =
     (1 \<le> year d \<and> year d \<le> 9999
      \<and> 1 \<le> month d \<and> month d \<le> 12
      \<and> 1 \<le> day d \<and> day d \<le> days_in_month (year d) (month d)
      \<and> 0 \<le> hour d \<and> hour d < 24
      \<and> 0 \<le> minute d \<and> minute d < 60
      \<and> 0 \<le> second d \<and> second d < 60
      \<and> 0 \<le> microsecond d \<and> microsecond d < 1000000
      \<and> (case tzinfo d of None \<Rightarrow> True | Some off \<Rightarrow> - 86400 < off \<and> off < 86400))"

definition ymd2ord :: "int \<Rightarrow> int \<Rightarrow> int \<Rightarrow> int" where
  "ymd2ord y m d = days_before_year y + days_before_month y m + d"

text \<open>
  Whole seconds from the epoch to the wall-clock fields of \<open>d\<close> read at UTC offset \<open>off\<close>.
\<close>

definition epoch_seconds :: "int \<Rightarrow> datetime \<Rightarrow> int" where
  "epoch_seconds off d =
     (ymd2ord (year d) (month d) (day d) - 719163) * 86400
       + hour d * 3600 + minute d * 60 + second d - off"

text \<open>
  \<^verbatim>\<open>datetime.timestamp()\<close>. For an aware datetime it is
  \<^verbatim>\<open>(self - epoch).total_seconds()\<close>, the true division of the microsecond count by
  \<open>10 ^ 6\<close>, rounded once. For a naive one the platform's local zone is looked up
  (\<open>local\<close>): the lookup gives the offset, or fails with an exception, as it does near the
  ends of the range of years (\<^verbatim>\<open>ValueError\<close>) and for an instant the platform cannot
  represent; the result is then the whole seconds plus \<^verbatim>\<open>microsecond / 1e6\<close>, each
  operation rounded.
\<close>

definition datetime_timestamp :: "(datetime \<Rightarrow> exn + int) \<Rightarrow> datetime \<Rightarrow> exn + rat" where
  "datetime_timestamp local d =
     (case tzinfo d of
        Some off \<Rightarrow>
          Inr (round_binary64
                 (of_int (epoch_seconds off d * 1000000 + microsecond d) / 1000000))
      | None \<Rightarrow>
          (case local d of
             Inl x \<Rightarrow> Inl x
           | Inr off \<Rightarrow>
               Inr (round_binary64 (of_int (epoch_seconds off d)
                      + round_binary64 (of_int (microsecond d) / 1000000)))))"

section \<open>Argument binding\<close>

text \<open>
  The signature of \<^verbatim>\<open>send_osmand_position\<close>: four parameters that may be given by
  position or by name, twelve keyword-only parameters with defaults, and
  \<^verbatim>\<open>**custom_attributes\<close>, which collects every keyword that names no parameter.
\<close>

record arguments =
  traccar_url :: pyval
  device_id :: pyval
  lat :: pyval
  lon :: pyval
  timestamp :: pyval
  speed :: pyval
  bearing :: pyval
  altitude :: pyval
  accuracy :: pyval
  hdop :: pyval
  battery :: pyval
  charge :: pyval
  valid :: pyval
  driver_unique_id :: pyval
  session :: pyval
  timeout :: pyval
  custom_attributes :: "(string \<times> pyval) list"

definition parameter_names :: "string list" where
  "parameter_names =
     [''traccar_url'', ''device_id'', ''lat'', ''lon'', ''timestamp'', ''speed'', ''bearing'',
      ''altitude'', ''accuracy'', ''hdop'', ''battery'', ''charge'', ''valid'',
      ''driver_unique_id'', ''session'', ''timeout'']"

text \<open>
  The \<open>i\<close>-th positional-or-keyword parameter \<open>n\<close>: bound by position when the call has
  that many positional arguments (and then a keyword of the same name is a
  \<^verbatim>\<open>TypeError\<close>: multiple values), by keyword otherwise (and a \<^verbatim>\<open>TypeError\<close> when
  missing).
\<close>

definition positional :: "pyval list \<Rightarrow> (string \<times> pyval) list \<Rightarrow> nat \<Rightarrow> string \<Rightarrow> exn + pyval" where
  "positional pos kw i n =
     (if i < length pos
      then (case map_of kw n of None \<Rightarrow> Inr (pos ! i) | Some v \<Rightarrow> Inl TypeError)
      else (case map_of kw n of None \<Rightarrow> Inl TypeError | Some v \<Rightarrow> Inr v))"

text \<open>A keyword-only parameter \<open>n\<close> with default \<open>d\<close>.\<close>

definition keyword :: "(string \<times> pyval) list \<Rightarrow> string \<Rightarrow> pyval \<Rightarrow> pyval" where
  "keyword kw n d = (case map_of kw n of None \<Rightarrow> d | Some v \<Rightarrow> v)"

text \<open>
  The parameters once the four required ones are known: each keyword-only parameter is
  the keyword of its name or its default, and \<^verbatim>\<open>custom_attributes\<close> holds the keywords
  that name no parameter, in the order given.
\<close>

definition bound :: "(string \<times> pyval) list \<Rightarrow> pyval \<Rightarrow> pyval \<Rightarrow> pyval \<Rightarrow> pyval \<Rightarrow> arguments" where
  "bound kw a_url a_id a_lat a_lon =
     \<lparr> traccar_url = a_url, device_id = a_id, lat = a_lat, lon = a_lon,
       timestamp = keyword kw ''timestamp'' PNone,
       speed = keyword kw ''speed'' PNone,
       bearing = keyword kw ''bearing'' PNone,
       altitude = keyword kw ''altitude'' PNone,
       accuracy = keyword kw ''accuracy'' PNone,
       hdop = keyword kw ''hdop'' PNone,
       battery = keyword kw ''battery'' PNone,
       charge = keyword kw ''charge'' PNone,
       valid = keyword kw ''valid'' PNone,
       driver_unique_id = keyword kw ''driver_unique_id'' PNone,
       session = keyword kw ''session'' PNone,
       timeout = keyword kw ''timeout'' (PInt 30),
       custom_attributes = filter (\<lambda>(k, v). k \<notin> set parameter_names) kw \<rparr>"

text \<open>
  Binding a call \<^verbatim>\<open>send_osmand_position(*pos, **kw)\<close>. More than four positional
  arguments, or a keyword given twice, is a \<^verbatim>\<open>TypeError\<close>.
\<close>

definition bind_arguments :: "pyval list \<Rightarrow> (string \<times> pyval) list \<Rightarrow> exn + arguments" where
  "bind_arguments pos kw =
     (if 4 < length pos \<or> \<not> distinct (map fst kw) then Inl TypeError
      else case positional pos kw 0 ''traccar_url'' of Inl e \<Rightarrow> Inl e | Inr a_url \<Rightarrow>
           case positional pos kw 1 ''device_id'' of Inl e \<Rightarrow> Inl e | Inr a_id \<Rightarrow>
           case positional pos kw 2 ''lat'' of Inl e \<Rightarrow> Inl e | Inr a_lat \<Rightarrow>
           case positional pos kw 3 ''lon'' of Inl e \<Rightarrow> Inl e | Inr a_lon \<Rightarrow>
           Inr (bound kw a_url a_id a_lat a_lon))"

section \<open>The client: validation and parameters\<close>

text \<open>Lines 107 to 113: the three checks, in order, each raising \<^verbatim>\<open>ValueError\<close>.\<close>

definition validate :: "arguments \<Rightarrow> exn option" where
  "validate a =
     (if \<not> truthy (device_id a) then Some (ValueError ''device_id is required'')
      else if \<not> isinstance_int_float (lat a) \<or> \<not> between (- 90) (lat a) 90
        then Some (ValueError ''lat must be a number between -90 and 90'')
      else if \<not> isinstance_int_float (lon a) \<or> \<not> between (- 180) (lon a) 180
        then Some (ValueError ''lon must be a number between -180 and 180'')
      else None)"

text \<open>
  The request parameters are a dict: an association list in insertion order, where
  storing under a key that is present replaces the value in place.
\<close>

type_synonym params = "(string \<times> pyval) list"

text \<open>\<^verbatim>\<open>if v is not None: params[k] = v\<close>\<close>

definition set_if_given :: "string \<Rightarrow> pyval \<Rightarrow> params \<Rightarrow> params" where
  "set_if_given k v p = (if v = PNone then p else AList.update k v p)"

text \<open>\<^verbatim>\<open>if v is not None: params[k] = "true" if v else "false"\<close>\<close>

definition set_bool_if_given :: "string \<Rightarrow> pyval \<Rightarrow> params \<Rightarrow> params" where
  "set_bool_if_given k v p =
     (if v = PNone then p
      else AList.update k (PStr (if truthy v then ''true'' else ''false'')) p)"

text \<open>
  Lines 123 to 125. A value that is neither \<^verbatim>\<open>None\<close> nor a datetime has no
  \<^verbatim>\<open>timestamp\<close> method, and the method of a datetime may itself raise.
\<close>

definition set_timestamp :: "(datetime \<Rightarrow> exn + int) \<Rightarrow> pyval \<Rightarrow> params \<Rightarrow> exn + params" where
  "set_timestamp local v p =
     (case v of
        PNone \<Rightarrow> Inr p
      | PDatetime d \<Rightarrow>
          (case datetime_timestamp local d of
             Inl x \<Rightarrow> Inl x
           | Inr t \<Rightarrow>
               Inr (AList.update ''timestamp''
                      (PInt (float_to_int (round_binary64 (t * 1000)))) p))
      | _ \<Rightarrow> Inl AttributeError)"

text \<open>\<^verbatim>\<open>params.update(custom_attributes)\<close>\<close>

definition dict_update :: "params \<Rightarrow> (string \<times> pyval) list \<Rightarrow> params" where
  "dict_update p kvs = fold (\<lambda>(k, v). AList.update k v) kvs p"

text \<open>Lines 116 to 155.\<close>

definition build_params :: "(datetime \<Rightarrow> exn + int) \<Rightarrow> arguments \<Rightarrow> exn + params" where
  "build_params local a =
     (case set_timestamp local (timestamp a)
             [(''id'', device_id a), (''lat'', lat a), (''lon'', lon a)] of
        Inl e \<Rightarrow> Inl e
      | Inr p \<Rightarrow>
          Inr (dict_update
                 (set_if_given ''driverUniqueId'' (driver_unique_id a)
                 (set_bool_if_given ''valid'' (valid a)
                 (set_bool_if_given ''charge'' (charge a)
                 (set_if_given ''batt'' (battery a)
                 (set_if_given ''hdop'' (hdop a)
                 (set_if_given ''accuracy'' (accuracy a)
                 (set_if_given ''altitude'' (altitude a)
                 (set_if_given ''bearing'' (bearing a)
                 (set_if_given ''speed'' (speed a) p)))))))))
                 (custom_attributes a)))"

text \<open>Line 158: only a string has \<^verbatim>\<open>rstrip\<close>.\<close>

definition base_url :: "pyval \<Rightarrow> exn + string" where
  "base_url u = (case u of PStr s \<Rightarrow> Inr (rstrip_slash s) | _ \<Rightarrow> Inl AttributeError)"

section \<open>The client: the request and the session\<close>

text \<open>
  The session a request goes through: the one the caller supplied, or the one the call
  created for itself.
\<close>

datatype session_ref = Caller pyval | Own

record request =
  via :: session_ref
  url :: string
  query :: params
  total_timeout :: pyval

text \<open>
  What \<^verbatim>\<open>session.get\<close> comes back with: a response (its status and the text of its
  body), or an exception raised from inside the request or while the body is read.
\<close>

datatype reply = Response int string | Raises exn

text \<open>
  The environment of a call: the network, and the platform's local zone (the UTC offset
  it gives a naive datetime, or the exception its lookup fails with).
\<close>

record env =
  net :: "request \<Rightarrow> reply"
  local_utcoffset :: "datetime \<Rightarrow> exn + int"

text \<open>What a call does besides returning, in order.\<close>

datatype effect =
    SessionCreated
  | Get request
  | Print string
  | SessionClosed session_ref

text \<open>Lines 166 to 189: the body of the \<^verbatim>\<open>try\<close>.\<close>

definition attempt :: "env \<Rightarrow> request \<Rightarrow> (exn + bool) \<times> effect list" where
  "attempt e r =
     (case net e r of
        Raises x \<Rightarrow> (Inl x, [Get r])
      | Response status body \<Rightarrow>
          if status = 200
          then (Inr True,
                [Get r, Print (''Traccar request succeeded with status '' @ str_int status)])
          else (Inl (ClientError (''Traccar request failed with status '' @ str_int status
                       @ '': '' @ body)),
                [Get r]))"

text \<open>
  The whole function on bound arguments: the outcome (\<open>Inl\<close> the exception raised,
  \<open>Inr\<close> the value returned) and the effects.
\<close>

definition send_osmand_position :: "env \<Rightarrow> arguments \<Rightarrow> (exn + bool) \<times> effect list" where
  "send_osmand_position e a =
     (case validate a of
        Some x \<Rightarrow> (Inl x, [])
      | None \<Rightarrow>
     (case build_params (local_utcoffset e) a of
        Inl x \<Rightarrow> (Inl x, [])
      | Inr p \<Rightarrow>
     (case base_url (traccar_url a) of
        Inl x \<Rightarrow> (Inl x, [])
      | Inr u \<Rightarrow>
          let close_session = (session a = PNone);
              s = (if close_session then Own else Caller (session a));
              r = \<lparr> via = s, url = u, query = p, total_timeout = timeout a \<rparr>;
              (outcome, effects) = attempt e r
          in (outcome,
              (if close_session then [SessionCreated] else []) @ effects
                @ (if close_session then [SessionClosed s] else [])))))"

text \<open>A call \<^verbatim>\<open>send_osmand_position(*pos, **kw)\<close>.\<close>

definition call :: "env \<Rightarrow> pyval list \<Rightarrow> (string \<times> pyval) list \<Rightarrow> (exn + bool) \<times> effect list" where
  "call e pos kw =
     (case bind_arguments pos kw of
        Inl x \<Rightarrow> (Inl x, [])
      | Inr a \<Rightarrow> send_osmand_position e a)"

text \<open>
  The arguments of a call that gives the four required ones by position and nothing
  else: every keyword-only parameter has its default.
\<close>

definition required_only :: "pyval \<Rightarrow> pyval \<Rightarrow> pyval \<Rightarrow> pyval \<Rightarrow> arguments" where
  "required_only u d la lo =
     \<lparr> traccar_url = u, device_id = d, lat = la, lon = lo, timestamp = PNone,
       speed = PNone, bearing = PNone, altitude = PNone, accuracy = PNone, hdop = PNone,
       battery = PNone, charge = PNone, valid = PNone, driver_unique_id = PNone,
       session = PNone, timeout = PInt 30, custom_attributes = [] \<rparr>"

text \<open>
  The local-time lookup of a platform whose zone is UTC, for a naive datetime (whose
  \<^verbatim>\<open>fold\<close> is 0): the offset is 0, but the lookup also probes the instant one day
  earlier, which for a datetime on the first day of year 1 lies in year 0, and that is a
  \<^verbatim>\<open>ValueError\<close>.
\<close>

definition utc_platform :: "datetime \<Rightarrow> exn + int" where
  "utc_platform d =
     (if year d = 1 \<and> month d = 1 \<and> day d = 1
      then Inl (ValueError ''year 0 is out of range'') else Inr 0)"

text \<open>
  An environment whose network gives every request the same reply, on a platform whose
  local zone is UTC.
\<close>

definition always :: "reply \<Rightarrow> env" where
  "always rep = \<lparr> net = (\<lambda>r. rep), local_utcoffset = utc_platform \<rparr>"

text \<open>The requests among the effects of a call, in order.\<close>

definition requests :: "effect list \<Rightarrow> request list" where
  "requests es = concat (map (\<lambda>x. case x of Get r \<Rightarrow> [r] | _ \<Rightarrow> []) es)"

text \<open>The lines a call printed, in order.\<close>

definition printed :: "effect list \<Rightarrow> string list" where
  "printed es = concat (map (\<lambda>x. case x of Print m \<Rightarrow> [m] | _ \<Rightarrow> []) es)"

section \<open>The event glue\<close>

text \<open>
  The events of the device the program subscribes to. \<^verbatim>\<open>GpsPositionEvent\<close> carries
  \<open>latitude\<close> and \<open>longitude\<close>, \<^verbatim>\<open>BatteryEvent\<close> an integer \<open>value\<close> (as the device
  library declares it), and \<^verbatim>\<open>PositionsEvent\<close> is only printed (the string is its
  printed form).
\<close>

datatype device_event =
    GpsPositionEvent (latitude: pyval) (longitude: pyval)
  | BatteryEvent int
  | PositionsEvent string

text \<open>
  \<^verbatim>\<open>sendGpsPositionToTraccar\<close>: the endpoint \<open>u\<close> is the module's \<^verbatim>\<open>traccar_url\<close> (what
  \<^verbatim>\<open>os.getenv\<close> returned), \<open>did\<close> the device's identifier, and \<open>b\<close> the module global
  \<^verbatim>\<open>lastKnownBattery\<close> as it is when the handler runs.
\<close>

definition sendGpsPositionToTraccar ::
    "env \<Rightarrow> pyval \<Rightarrow> pyval \<Rightarrow> pyval \<Rightarrow> device_event \<Rightarrow> (exn + bool) \<times> effect list" where
  "sendGpsPositionToTraccar e u did b ev =
     call e [u, did, latitude ev, longitude ev] [(''battery'', b)]"

text \<open>
  The three subscribed handlers, on the global \<^verbatim>\<open>lastKnownBattery\<close>: the new value of
  the global and the effects of handling one event.
\<close>

fun handle :: "env \<Rightarrow> pyval \<Rightarrow> pyval \<Rightarrow> device_event \<Rightarrow> pyval \<Rightarrow> pyval \<times> effect list" where
  "handle e u did (GpsPositionEvent la lo) b =
     (b, snd (sendGpsPositionToTraccar e u did b (GpsPositionEvent la lo)))"
| "handle e u did (BatteryEvent v) b = (PInt v, [])"
| "handle e u did (PositionsEvent s) b = (b, [Print (''POS '' @ s)])"

text \<open>The events of a run handled one after the other, from a given value of the global.\<close>

fun run :: "env \<Rightarrow> pyval \<Rightarrow> pyval \<Rightarrow> device_event list \<Rightarrow> pyval \<Rightarrow> pyval \<times> effect list" where
  "run e u did [] b = (b, [])"
| "run e u did (ev # evs) b =
     (let (b', es) = handle e u did ev b;
          (b'', es') = run e u did evs b'
      in (b'', es @ es'))"

text \<open>
  The battery level most recently observed in a history of events, if any: the
  specification's notion, independent of the handlers.
\<close>

fun most_recent_battery :: "device_event list \<Rightarrow> int option" where
  "most_recent_battery [] = None"
| "most_recent_battery (ev # evs) =
     (case most_recent_battery evs of
        Some v \<Rightarrow> Some v
      | None \<Rightarrow> (case ev of BatteryEvent v \<Rightarrow> Some v | _ \<Rightarrow> None))"

section \<open>Validation\<close>

lemma validate_Some_ValueError: "validate a = Some x \<Longrightarrow> \<exists>m. x = ValueError m"
  by (auto simp: validate_def split: if_splits)

lemma validate_None_iff:
  "validate a = None \<longleftrightarrow>
     truthy (device_id a)
     \<and> isinstance_int_float (lat a) \<and> between (- 90) (lat a) 90
     \<and> isinstance_int_float (lon a) \<and> between (- 180) (lon a) 180"
  by (auto simp: validate_def)

lemma send_invalid: "validate a = Some x \<Longrightarrow> send_osmand_position e a = (Inl x, [])"
  by (simp add: send_osmand_position_def)

section \<open>The parameters and the shape of a call\<close>

lemma map_of_dict_update_notin:
  "k \<notin> fst ` set kvs \<Longrightarrow> map_of (dict_update p kvs) k = map_of p k"
  unfolding dict_update_def
  by (induction kvs arbitrary: p) (auto simp: update_conv')

lemma map_of_dict_update_in:
  "distinct (map fst kvs) \<Longrightarrow> (k, v) \<in> set kvs \<Longrightarrow> map_of (dict_update p kvs) k = Some v"
  unfolding dict_update_def
proof (induction kvs arbitrary: p)
  case Nil
  then show ?case by simp
next
  case (Cons kv kvs)
  obtain k' v' where kv: "kv = (k', v')" by (cases kv)
  show ?case
  proof (cases "(k, v) \<in> set kvs")
    case True
    with Cons show ?thesis by (simp add: kv)
  next
    case False
    with Cons.prems have eq: "k' = k" "v' = v" and notin: "k \<notin> fst ` set kvs"
      by (auto simp: kv)
    from notin have "map_of (dict_update (AList.update k v p) kvs) k = map_of (AList.update k v p) k"
      by (rule map_of_dict_update_notin)
    then show ?thesis
      by (simp add: kv eq dict_update_def update_conv')
  qed
qed

lemma requests_attempt: "requests (snd (attempt e r)) = [r]"
  by (simp add: attempt_def requests_def split: reply.splits)

lemma send_unreached:
  "validate a \<noteq> None \<or> (\<exists>x. build_params (local_utcoffset e) a = Inl x)
     \<or> (\<exists>x. base_url (traccar_url a) = Inl x)
   \<Longrightarrow> \<exists>x. send_osmand_position e a = (Inl x, [])"
  by (auto simp: send_osmand_position_def split: option.splits sum.splits)

lemma send_reached:
  assumes "validate a = None" and "build_params (local_utcoffset e) a = Inr p"
    and "base_url (traccar_url a) = Inr u"
  shows "send_osmand_position e a =
     (fst (attempt e \<lparr> via = (if session a = PNone then Own else Caller (session a)),
                        url = u, query = p, total_timeout = timeout a \<rparr>),
      (if session a = PNone then [SessionCreated] else [])
        @ snd (attempt e \<lparr> via = (if session a = PNone then Own else Caller (session a)),
                        url = u, query = p, total_timeout = timeout a \<rparr>)
        @ (if session a = PNone then [SessionClosed Own] else []))"
  using assms by (simp add: send_osmand_position_def Let_def split: prod.splits)


lemma map_of_set_if_given_other:
  "k' \<noteq> k \<Longrightarrow> map_of (set_if_given k v p) k' = map_of p k'"
  by (simp add: set_if_given_def update_conv')

lemma map_of_set_if_given_same:
  "map_of (set_if_given k v p) k = (if v = PNone then map_of p k else Some v)"
  by (simp add: set_if_given_def update_conv')

lemma map_of_set_bool_if_given_other:
  "k' \<noteq> k \<Longrightarrow> map_of (set_bool_if_given k v p) k' = map_of p k'"
  by (simp add: set_bool_if_given_def update_conv')

lemma map_of_set_bool_if_given_same:
  "map_of (set_bool_if_given k v p) k =
     (if v = PNone then map_of p k else Some (PStr (if truthy v then ''true'' else ''false'')))"
  by (simp add: set_bool_if_given_def update_conv')

lemma set_timestamp_None: "set_timestamp local PNone p = Inr p"
  by (simp add: set_timestamp_def)

lemma map_of_set_timestamp_other:
  "set_timestamp local v p = Inr p' \<Longrightarrow> k \<noteq> ''timestamp'' \<Longrightarrow> map_of p' k = map_of p k"
  by (cases v) (auto simp: set_timestamp_def update_conv' split: sum.splits)

lemma map_of_set_timestamp_same:
  "set_timestamp local v p = Inr p' \<Longrightarrow>
   map_of p' ''timestamp'' =
     (case v of
        PDatetime d \<Rightarrow>
          (case datetime_timestamp local d of
             Inl x \<Rightarrow> None
           | Inr t \<Rightarrow> Some (PInt (float_to_int (round_binary64 (t * 1000)))))
      | _ \<Rightarrow> map_of p ''timestamp'')"
  by (cases v) (auto simp: set_timestamp_def update_conv' split: sum.splits)

lemmas map_of_layers =
  map_of_set_if_given_other map_of_set_if_given_same
  map_of_set_bool_if_given_other map_of_set_bool_if_given_same

lemma build_params_chain:
  assumes "build_params local a = Inr p"
  shows "\<exists>p0. set_timestamp local (timestamp a)
             [(''id'', device_id a), (''lat'', lat a), (''lon'', lon a)] = Inr p0 \<and>
     p = dict_update
                 (set_if_given ''driverUniqueId'' (driver_unique_id a)
                 (set_bool_if_given ''valid'' (valid a)
                 (set_bool_if_given ''charge'' (charge a)
                 (set_if_given ''batt'' (battery a)
                 (set_if_given ''hdop'' (hdop a)
                 (set_if_given ''accuracy'' (accuracy a)
                 (set_if_given ''altitude'' (altitude a)
                 (set_if_given ''bearing'' (bearing a)
                 (set_if_given ''speed'' (speed a) p0)))))))))
                 (custom_attributes a)"
  using assms unfolding build_params_def by (simp split: sum.splits)

lemma build_params_protocol:
  assumes "build_params local a = Inr p" and "k \<notin> fst ` set (custom_attributes a)"
  shows "map_of p k =
          (if k = ''id'' then Some (device_id a)
           else if k = ''lat'' then Some (lat a)
           else if k = ''lon'' then Some (lon a)
           else if k = ''speed'' then (if speed a = PNone then None else Some (speed a))
           else if k = ''bearing'' then (if bearing a = PNone then None else Some (bearing a))
           else if k = ''altitude'' then (if altitude a = PNone then None else Some (altitude a))
           else if k = ''accuracy'' then (if accuracy a = PNone then None else Some (accuracy a))
           else if k = ''hdop'' then (if hdop a = PNone then None else Some (hdop a))
           else if k = ''batt'' then (if battery a = PNone then None else Some (battery a))
           else if k = ''charge'' then
             (if charge a = PNone then None
              else Some (PStr (if truthy (charge a) then ''true'' else ''false'')))
           else if k = ''valid'' then
             (if valid a = PNone then None
              else Some (PStr (if truthy (valid a) then ''true'' else ''false'')))
           else if k = ''driverUniqueId'' then
             (if driver_unique_id a = PNone then None else Some (driver_unique_id a))
           else if k = ''timestamp'' then
             (case timestamp a of
                PDatetime d \<Rightarrow>
                  (case datetime_timestamp local d of
                     Inl x \<Rightarrow> None
                   | Inr t \<Rightarrow> Some (PInt (float_to_int (round_binary64 (t * 1000)))))
              | _ \<Rightarrow> None)
           else None)"
proof -
  from build_params_chain [OF assms(1)] obtain p0 where
    p0: "set_timestamp local (timestamp a)
             [(''id'', device_id a), (''lat'', lat a), (''lon'', lon a)] = Inr p0"
    and p: "p = dict_update
                 (set_if_given ''driverUniqueId'' (driver_unique_id a)
                 (set_bool_if_given ''valid'' (valid a)
                 (set_bool_if_given ''charge'' (charge a)
                 (set_if_given ''batt'' (battery a)
                 (set_if_given ''hdop'' (hdop a)
                 (set_if_given ''accuracy'' (accuracy a)
                 (set_if_given ''altitude'' (altitude a)
                 (set_if_given ''bearing'' (bearing a)
                 (set_if_given ''speed'' (speed a) p0)))))))))
                 (custom_attributes a)"
    by blast
  have main: "map_of p k = map_of (set_if_given ''driverUniqueId'' (driver_unique_id a)
                 (set_bool_if_given ''valid'' (valid a)
                 (set_bool_if_given ''charge'' (charge a)
                 (set_if_given ''batt'' (battery a)
                 (set_if_given ''hdop'' (hdop a)
                 (set_if_given ''accuracy'' (accuracy a)
                 (set_if_given ''altitude'' (altitude a)
                 (set_if_given ''bearing'' (bearing a)
                 (set_if_given ''speed'' (speed a) p0))))))))) k"
    unfolding p by (rule map_of_dict_update_notin [OF assms(2)])
  have ts: "map_of p0 ''timestamp'' =
             (case timestamp a of
                PDatetime d \<Rightarrow>
                  (case datetime_timestamp local d of
                     Inl x \<Rightarrow> None
                   | Inr t \<Rightarrow> Some (PInt (float_to_int (round_binary64 (t * 1000)))))
              | _ \<Rightarrow> None)"
    unfolding map_of_set_timestamp_same [OF p0] by (cases "timestamp a") simp_all
  note rules = map_of_layers map_of_set_timestamp_other [OF p0]
  consider "k = ''id''" | "k = ''lat''" | "k = ''lon''" | "k = ''speed''" | "k = ''bearing''"
    | "k = ''altitude''" | "k = ''accuracy''" | "k = ''hdop''" | "k = ''batt''"
    | "k = ''charge''" | "k = ''valid''" | "k = ''driverUniqueId''" | "k = ''timestamp''"
    | "k \<noteq> ''id'' \<and> k \<noteq> ''lat'' \<and> k \<noteq> ''lon'' \<and> k \<noteq> ''speed'' \<and> k \<noteq> ''bearing''
       \<and> k \<noteq> ''altitude'' \<and> k \<noteq> ''accuracy'' \<and> k \<noteq> ''hdop'' \<and> k \<noteq> ''batt''
       \<and> k \<noteq> ''charge'' \<and> k \<noteq> ''valid'' \<and> k \<noteq> ''driverUniqueId'' \<and> k \<noteq> ''timestamp''"
    by blast
  then show ?thesis
    unfolding main by cases (simp_all add: rules ts)
qed

lemma build_params_Inr:
  "timestamp a = PNone
     \<or> (\<exists>d t. timestamp a = PDatetime d \<and> datetime_timestamp local d = Inr t)
   \<Longrightarrow> \<exists>p. build_params local a = Inr p"
  by (auto simp: build_params_def set_timestamp_def)

lemma base_url_Inr: "u = PStr s \<Longrightarrow> base_url u = Inr (rstrip_slash s)"
  by (simp add: base_url_def)

lemma requests_append: "requests (xs @ ys) = requests xs @ requests ys"
  by (simp add: requests_def)

lemma requests_send_reached:
  assumes "validate a = None" and "build_params (local_utcoffset e) a = Inr p"
    and "base_url (traccar_url a) = Inr u"
  shows "requests (snd (send_osmand_position e a)) =
     [\<lparr> via = (if session a = PNone then Own else Caller (session a)),
        url = u, query = p, total_timeout = timeout a \<rparr>]"
  unfolding send_reached [OF assms]
  by (simp add: requests_append requests_attempt) (simp add: requests_def)

lemma set_send_reached:
  assumes "validate a = None" and "build_params (local_utcoffset e) a = Inr p"
    and "base_url (traccar_url a) = Inr u"
  shows "Get r \<in> set (snd (send_osmand_position e a)) \<longleftrightarrow>
     r = \<lparr> via = (if session a = PNone then Own else Caller (session a)),
        url = u, query = p, total_timeout = timeout a \<rparr>"
  unfolding send_reached [OF assms]
  by (auto simp: attempt_def split: reply.splits)

lemma Get_in_send:
  assumes "Get r \<in> set (snd (send_osmand_position e a))"
  shows "fst (send_osmand_position e a) = fst (attempt e r)
    \<and> validate a = None \<and> build_params (local_utcoffset e) a = Inr (query r)
    \<and> base_url (traccar_url a) = Inr (url r)
    \<and> via r = (if session a = PNone then Own else Caller (session a))
    \<and> total_timeout r = timeout a"
proof (cases "validate a")
  case (Some x)
  with assms show ?thesis by (simp add: send_invalid)
next
  case None
  show ?thesis
  proof (cases "build_params (local_utcoffset e) a")
    case (Inl x)
    with assms None show ?thesis by (simp add: send_osmand_position_def)
  next
    case (Inr p)
    show ?thesis
    proof (cases "base_url (traccar_url a)")
      case (Inl x)
      with assms None Inr show ?thesis by (simp add: send_osmand_position_def)
    next
      case u: (Inr u)
      from assms have r: "r = \<lparr> via = (if session a = PNone then Own else Caller (session a)),
        url = u, query = p, total_timeout = timeout a \<rparr>"
        unfolding set_send_reached [OF None Inr u] .
      show ?thesis
        unfolding send_reached [OF None Inr u] using None Inr u by (simp add: r)
    qed
  qed
qed

text \<open>The definitions a concrete call is evaluated with.\<close>

lemmas evaluate =
  send_osmand_position_def validate_def build_params_def set_timestamp_None set_if_given_def
  set_bool_if_given_def dict_update_def base_url_def rstrip_slash_def attempt_def
  required_only_def between_def always_def str_int_def str_nat.simps

lemma send_effects_empty_or_reached:
  "(\<exists>x. send_osmand_position e a = (Inl x, []))
   \<or> (\<exists>p u. validate a = None \<and> build_params (local_utcoffset e) a = Inr p
          \<and> base_url (traccar_url a) = Inr u)"
proof (cases "validate a = None \<and> (\<exists>p. build_params (local_utcoffset e) a = Inr p)
          \<and> (\<exists>u. base_url (traccar_url a) = Inr u)")
  case True
  then show ?thesis by blast
next
  case False
  then have "validate a \<noteq> None \<or> (\<exists>x. build_params (local_utcoffset e) a = Inl x)
     \<or> (\<exists>x. base_url (traccar_url a) = Inl x)"
    by (metis sum.exhaust)
  then show ?thesis
    using send_unreached by blast
qed

lemma attempt_no_session_effects:
  "SessionCreated \<notin> set (snd (attempt e r)) \<and> (\<forall>s. SessionClosed s \<notin> set (snd (attempt e r)))"
  by (simp add: attempt_def split: reply.splits)

lemma Get_in_attempt: "Get r \<in> set (snd (attempt e r))"
  by (simp add: attempt_def split: reply.splits)

lemma bind_arguments_Inr:
  assumes "bind_arguments pos kw = Inr a"
  shows "distinct (map fst kw)"
    and "custom_attributes a = filter (\<lambda>(k, v). k \<notin> set parameter_names) kw"
proof -
  from assms show "distinct (map fst kw)"
    unfolding bind_arguments_def by (simp split: if_splits)
  from assms have "\<exists>a_url a_id a_lat a_lon. bound kw a_url a_id a_lat a_lon = a"
    unfolding bind_arguments_def by (simp split: if_splits sum.splits) blast
  then show "custom_attributes a = filter (\<lambda>(k, v). k \<notin> set parameter_names) kw"
    by (auto simp: bound_def)
qed

lemmas evaluate_call =
  call_def bind_arguments_def positional_def keyword_def parameter_names_def bound_def

lemma call_bound: "bind_arguments pos kw = Inr a \<Longrightarrow> call e pos kw = send_osmand_position e a"
  by (simp add: call_def)

lemma build_params_custom:
  assumes "build_params local a = Inr p" and "distinct (map fst (custom_attributes a))"
    and "(k, v) \<in> set (custom_attributes a)"
  shows "map_of p k = Some v"
proof -
  from build_params_chain [OF assms(1)] obtain q where "p = dict_update q (custom_attributes a)"
    by blast
  then show ?thesis
    using map_of_dict_update_in [OF assms(2,3)] by simp
qed

lemma handle_battery:
  "fst (handle e u did ev b) = (case ev of BatteryEvent v \<Rightarrow> PInt v | _ \<Rightarrow> b)"
  by (cases ev) simp_all

lemma run_battery:
  "fst (run e u did evs b) = (case most_recent_battery evs of None \<Rightarrow> b | Some v \<Rightarrow> PInt v)"
proof (induction evs arbitrary: b)
  case Nil
  then show ?case by simp
next
  case (Cons ev evs)
  have "fst (run e u did (ev # evs) b) = fst (run e u did evs (fst (handle e u did ev b)))"
    by (simp add: Let_def split: prod.splits)
  then show ?case
    unfolding Cons.IH handle_battery
    by (cases ev) (simp_all split: option.splits)
qed

lemma bind_report:
  "bind_arguments [u, did, la, lo] [(''battery'', b)]
     = Inr ((required_only u did la lo) \<lparr> battery := b \<rparr>)"
  by (simp add: evaluate_call required_only_def)

section \<open>The rounding is to a nearest float\<close>

text \<open>
  The exponent found for a number of at least 1 brackets it between two powers of two, and
  the significand chosen is a nearest integer.
\<close>

lemma bit_length_bounds:
  "0 < n \<Longrightarrow> 2 ^ (bit_length n - 1) \<le> n \<and> n < 2 ^ bit_length n"
proof (induction n rule: bit_length.induct)
  case (1 n)
  show ?case
  proof (cases "n div 2 = 0")
    case True
    with "1.prems" have "n = 1" by (simp add: div_eq_0_iff) 
    then show ?thesis by (simp add: bit_length.simps)
  next
    case False
    with "1.IH" "1.prems" have ih: "2 ^ (bit_length (n div 2) - 1) \<le> n div 2"
      "n div 2 < 2 ^ bit_length (n div 2)"
      by simp_all
    have pos: "0 < bit_length (n div 2)"
      using False by (subst bit_length.simps) simp
    have bl: "bit_length n = Suc (bit_length (n div 2))"
      using "1.prems" by (subst bit_length.simps) simp
    have "2 ^ (bit_length n - 1) = 2 * 2 ^ (bit_length (n div 2) - 1)"
      using pos unfolding bl by (cases "bit_length (n div 2)") simp_all
    also have "\<dots> \<le> 2 * (n div 2)"
      using ih(1) by simp
    also have "\<dots> \<le> n"
      by simp
    finally have lower: "2 ^ (bit_length n - 1) \<le> n" .
    have "n < 2 * (n div 2) + 2"
      by arith
    also have "\<dots> \<le> 2 * 2 ^ bit_length (n div 2)"
      using ih(2) by simp
    finally have "n < 2 ^ bit_length n"
      unfolding bl by simp
    with lower show ?thesis ..
  qed
qed

lemma round_half_even_nearest: "\<bar>of_int (round_half_even x) - x\<bar> \<le> 1 / 2"
proof -
  have "of_int \<lfloor>x\<rfloor> \<le> x" "x < of_int \<lfloor>x\<rfloor> + 1"
    by linarith+
  then show ?thesis
    unfolding round_half_even_def Let_def by (auto simp: abs_if; linarith)
qed

lemma floor_log2_ge_1:
  assumes "1 \<le> x"
  shows "pow2 (floor_log2 x) \<le> x \<and> x < pow2 (floor_log2 x + 1)"
proof -
  let ?n = "nat \<lfloor>x\<rfloor>"
  have n: "0 < ?n" using assms by simp
  note b = bit_length_bounds [OF n]
  have pos: "0 < bit_length ?n"
    using n by (subst bit_length.simps) simp
  have fl: "floor_log2 x = int (bit_length ?n) - 1"
    using assms by (simp add: floor_log2_def)
  have "pow2 (floor_log2 x) = 2 ^ (bit_length ?n - 1)"
    unfolding fl pow2_def using pos by (simp add: nat_diff_distrib')
  also have "\<dots> = of_nat (2 ^ (bit_length ?n - 1))" by simp
  also have "\<dots> \<le> of_nat ?n" using b unfolding of_nat_le_iff by blast
  also have "\<dots> \<le> x" using assms by simp
  finally have lower: "pow2 (floor_log2 x) \<le> x" .
  have "x < of_int (\<lfloor>x\<rfloor> + 1)" by linarith
  also have "\<dots> = of_nat (Suc ?n)" using assms by simp
  also have "\<dots> \<le> of_nat (2 ^ bit_length ?n)"
  proof -
    from b have "?n < 2 ^ bit_length ?n" by (rule conjunct2)
    then have "Suc ?n \<le> 2 ^ bit_length ?n" by (rule Suc_leI)
    then show ?thesis by (rule of_nat_mono)
  qed
  also have "\<dots> = pow2 (floor_log2 x + 1)"
    unfolding fl pow2_def by simp
  finally show ?thesis using lower by blast
qed

section \<open>The timestamp at two instants\<close>

lemma floor_rat_numeral: "\<lfloor>numeral a / numeral b :: rat\<rfloor> = numeral a div numeral b"
  by (metis floor_divide_of_int_eq of_int_numeral)

lemma epoch_seconds_example:
  "epoch_seconds 0 (Datetime 1970 1 1 0 0 1 1000 (Some 0)) = 1"
  by (simp add: epoch_seconds_def ymd2ord_def days_before_year_def days_before_month_def
      is_leap_def)

lemma floor_log2_1001: "floor_log2 (1001 / 1000) = 0"
  by (simp add: floor_log2_def floor_rat_numeral bit_length.simps)

lemma round_1001: "round_binary64 (1001 / 1000) = 2254051613498933 / 2251799813685248"
  by (simp add: round_binary64_def floor_log2_1001 pow2_def round_half_even_def Let_def
      floor_rat_numeral)

lemma timestamp_example:
  "datetime_timestamp local (Datetime 1970 1 1 0 0 1 1000 (Some 0))
     = Inr (2254051613498933 / 2251799813685248)"
  by (simp add: datetime_timestamp_def epoch_seconds_example round_1001)

lemma floor_log2_product: "floor_log2 (281756451687366625 / 281474976710656) = 9"
  by (simp add: floor_log2_def floor_rat_numeral bit_length.simps)

lemma round_product:
  "round_binary64 (2254051613498933 / 2251799813685248 * 1000)
     = 8804889115230207 / 8796093022208"
  by (simp add: round_binary64_def floor_log2_product pow2_def round_half_even_def Let_def
      floor_rat_numeral)

lemma truncated: "float_to_int (8804889115230207 / 8796093022208) = 1000"
  by (simp add: float_to_int_def floor_rat_numeral)


lemma encoded_example:
  "set_timestamp local (PDatetime (Datetime 1970 1 1 0 0 1 1000 (Some 0))) p
     = Inr (AList.update ''timestamp'' (PInt 1000) p)"
  unfolding set_timestamp_def pyval.case timestamp_example sum.case round_product truncated ..

lemma epoch_seconds_known: "epoch_seconds 0 (Datetime 2024 1 1 0 0 0 0 (Some 0)) = 1704067200"
  by (simp add: epoch_seconds_def ymd2ord_def days_before_year_def days_before_month_def
      is_leap_def)

lemma floor_log2_known_seconds: "floor_log2 1704067200 = 30"
  by (simp add: floor_log2_def bit_length.simps)

lemma floor_log2_known_milliseconds: "floor_log2 1704067200000 = 40"
  by (simp add: floor_log2_def bit_length.simps)

lemma timestamp_known_instant:
  "datetime_timestamp local (Datetime 2024 1 1 0 0 0 0 (Some 0)) = Inr 1704067200"
  by (simp add: datetime_timestamp_def epoch_seconds_known round_binary64_def
      floor_log2_known_seconds pow2_def round_half_even_def Let_def)

lemma milliseconds_known_instant:
  "float_to_int (round_binary64 1704067200000) = 1704067200000"
  by (simp add: round_binary64_def floor_log2_known_milliseconds pow2_def round_half_even_def
      Let_def float_to_int_def)

lemma encoded_known_instant:
  "set_timestamp local (PDatetime (Datetime 2024 1 1 0 0 0 0 (Some 0))) p
     = Inr (AList.update ''timestamp'' (PInt 1704067200000) p)"
  by (simp add: set_timestamp_def timestamp_known_instant milliseconds_known_instant)

text \<open>
  The naive datetime 0001-01-01T00:00:00 is well formed, and on a UTC platform its
  \<^verbatim>\<open>timestamp()\<close> raises: the call ends there, before any session or request.
\<close>

lemma naive_first_day_fails:
  "well_formed (Datetime 1 1 1 0 0 0 0 None)
   \<and> send_osmand_position (always (Response 200 []))
        ((required_only (PStr ''http://localhost:5055'') (PStr ''robot'') (PInt 10) (PInt 20))
           \<lparr> timestamp := PDatetime (Datetime 1 1 1 0 0 0 0 None) \<rparr>)
      = (Inl (ValueError ''year 0 is out of range''), [])"
  by (simp add: well_formed_def days_in_month_def is_leap_def send_osmand_position_def
      validate_def between_def build_params_def set_timestamp_def datetime_timestamp_def
      always_def utc_platform_def required_only_def)

lemma well_formed_examples:
  "well_formed (Datetime 1970 1 1 0 0 1 1000 (Some 0))"
  "well_formed (Datetime 2024 1 1 0 0 0 0 (Some 0))"
  by (simp_all add: well_formed_def days_in_month_def is_leap_def)

section \<open>The properties of the specification\<close>

text \<open>
  C2. When \<open>device_id\<close> is empty, or \<open>lat\<close> is not a number in \<open>[-90, 90]\<close>, or \<open>lon\<close> is
  not a number in \<open>[-180, 180]\<close>, the call raises \<^verbatim>\<open>ValueError\<close> and has no effect at
  all: no request is issued and no session is created.
\<close>

theorem invalid_input_no_io:
  assumes "\<not> truthy (device_id a)
           \<or> \<not> (isinstance_int_float (lat a) \<and> between (- 90) (lat a) 90)
           \<or> \<not> (isinstance_int_float (lon a) \<and> between (- 180) (lon a) 180)"
  shows "\<exists>m. send_osmand_position e a = (Inl (ValueError m), [])"
proof -
  from assms have "validate a \<noteq> None"
    by (simp add: validate_None_iff)
  then obtain x where x: "validate a = Some x"
    by blast
  then obtain m where "x = ValueError m"
    using validate_Some_ValueError by blast
  with x show ?thesis
    by (simp add: send_invalid)
qed

theorem invalid_input_no_io_witness:
  "\<not> between (- 90) (PFloat (Finite 91)) 90
   \<and> (\<exists>m. send_osmand_position \<lparr> net = (\<lambda>r. Response 200 []), local_utcoffset = (\<lambda>d. Inr 0) \<rparr>
             (required_only (PStr ''http://localhost:5055'') (PStr ''robot'')
                (PFloat (Finite 91)) (PInt 0))
           = (Inl (ValueError m), []))"
proof (intro conjI)
  show h: "\<not> between (- 90) (PFloat (Finite 91)) 90"
    by (simp add: between_def)
  show "\<exists>m. send_osmand_position \<lparr> net = (\<lambda>r. Response 200 []), local_utcoffset = (\<lambda>d. Inr 0) \<rparr>
             (required_only (PStr ''http://localhost:5055'') (PStr ''robot'')
                (PFloat (Finite 91)) (PInt 0))
           = (Inl (ValueError m), [])"
    by (rule invalid_input_no_io) (simp add: required_only_def h)
qed

text \<open>
  C1. For every valid sample whose timestamp, if any, converts (the datetime is well
  formed and its \<^verbatim>\<open>timestamp()\<close> returns), the request is issued and its parameters are,
  on every key that is not a custom attribute, exactly these: \<open>id\<close>, \<open>lat\<close> and \<open>lon\<close>
  always; each optional field that was supplied, under its protocol key (\<open>battery\<close> under
  \<open>batt\<close>, \<open>charge\<close> and \<open>valid\<close> as the strings \<open>true\<close> or \<open>false\<close>, \<open>driver_unique_id\<close>
  under \<open>driverUniqueId\<close>, the five numbers under their own names, the timestamp under
  \<open>timestamp\<close>); and nothing else: a field that was not supplied has no parameter.
\<close>

theorem request_parameters:
  assumes "validate a = None"
    and "timestamp a = PNone
         \<or> (\<exists>d t. timestamp a = PDatetime d \<and> well_formed d
                \<and> datetime_timestamp (local_utcoffset e) d = Inr t)"
    and "traccar_url a = PStr s"
  shows "\<exists>r. requests (snd (send_osmand_position e a)) = [r] \<and>
     (\<forall>k. k \<notin> fst ` set (custom_attributes a) \<longrightarrow>
        map_of (query r) k =
          (if k = ''id'' then Some (device_id a)
           else if k = ''lat'' then Some (lat a)
           else if k = ''lon'' then Some (lon a)
           else if k = ''speed'' then (if speed a = PNone then None else Some (speed a))
           else if k = ''bearing'' then (if bearing a = PNone then None else Some (bearing a))
           else if k = ''altitude'' then (if altitude a = PNone then None else Some (altitude a))
           else if k = ''accuracy'' then (if accuracy a = PNone then None else Some (accuracy a))
           else if k = ''hdop'' then (if hdop a = PNone then None else Some (hdop a))
           else if k = ''batt'' then (if battery a = PNone then None else Some (battery a))
           else if k = ''charge'' then
             (if charge a = PNone then None
              else Some (PStr (if truthy (charge a) then ''true'' else ''false'')))
           else if k = ''valid'' then
             (if valid a = PNone then None
              else Some (PStr (if truthy (valid a) then ''true'' else ''false'')))
           else if k = ''driverUniqueId'' then
             (if driver_unique_id a = PNone then None else Some (driver_unique_id a))
           else if k = ''timestamp'' then
             (case timestamp a of
                PDatetime d \<Rightarrow>
                  (case datetime_timestamp (local_utcoffset e) d of
                     Inl x \<Rightarrow> None
                   | Inr t \<Rightarrow> Some (PInt (float_to_int (round_binary64 (t * 1000)))))
              | _ \<Rightarrow> None)
           else None))"
proof -
  from assms(2) have "timestamp a = PNone
      \<or> (\<exists>d t. timestamp a = PDatetime d \<and> datetime_timestamp (local_utcoffset e) d = Inr t)"
    by blast
  then obtain p where p: "build_params (local_utcoffset e) a = Inr p"
    using build_params_Inr by blast
  have u: "base_url (traccar_url a) = Inr (rstrip_slash s)"
    using assms(3) by (rule base_url_Inr)
  show ?thesis
    unfolding requests_send_reached [OF assms(1) p u]
    using build_params_protocol [OF p] by simp
qed

theorem request_parameters_witness:
  "validate ((required_only (PStr ''http://localhost:5055/'') (PStr ''veh-1'')
               (PFloat (Finite (377749 / 10000))) (PFloat (Finite (- 1224194 / 10000))))
              \<lparr> timestamp := PDatetime (Datetime 2024 1 1 0 0 0 0 (Some 0)),
                battery := PInt 85, charge := PBool True \<rparr>) = None
   \<and> well_formed (Datetime 2024 1 1 0 0 0 0 (Some 0))
   \<and> datetime_timestamp (local_utcoffset (always (Response 200 [])))
         (Datetime 2024 1 1 0 0 0 0 (Some 0)) = Inr 1704067200
   \<and> (\<exists>r. requests (snd (send_osmand_position (always (Response 200 []))
               ((required_only (PStr ''http://localhost:5055/'') (PStr ''veh-1'')
                  (PFloat (Finite (377749 / 10000))) (PFloat (Finite (- 1224194 / 10000))))
                 \<lparr> timestamp := PDatetime (Datetime 2024 1 1 0 0 0 0 (Some 0)),
                   battery := PInt 85, charge := PBool True \<rparr>))) = [r]
          \<and> map_of (query r) ''id'' = Some (PStr ''veh-1'')
          \<and> map_of (query r) ''lat'' = Some (PFloat (Finite (377749 / 10000)))
          \<and> map_of (query r) ''batt'' = Some (PInt 85)
          \<and> map_of (query r) ''charge'' = Some (PStr ''true'')
          \<and> map_of (query r) ''timestamp'' = Some (PInt 1704067200000)
          \<and> map_of (query r) ''battery'' = None
          \<and> map_of (query r) ''speed'' = None
          \<and> map_of (query r) ''valid'' = None)"
proof -
  let ?d = "Datetime 2024 1 1 0 0 0 0 (Some 0)"
  let ?a = "(required_only (PStr ''http://localhost:5055/'') (PStr ''veh-1'')
               (PFloat (Finite (377749 / 10000))) (PFloat (Finite (- 1224194 / 10000))))
              \<lparr> timestamp := PDatetime ?d, battery := PInt 85, charge := PBool True \<rparr>"
  let ?e = "always (Response 200 [])"
  have v: "validate ?a = None"
    by (simp add: validate_def required_only_def between_def)
  have w: "well_formed ?d"
    by (rule well_formed_examples)
  have c: "datetime_timestamp (local_utcoffset ?e) ?d = Inr 1704067200"
    by (rule timestamp_known_instant)
  have t: "timestamp ?a = PNone
         \<or> (\<exists>d t. timestamp ?a = PDatetime d \<and> well_formed d
                \<and> datetime_timestamp (local_utcoffset ?e) d = Inr t)"
    using w c by (simp add: required_only_def)
  have u: "traccar_url ?a = PStr ''http://localhost:5055/''"
    by (simp add: required_only_def)
  from request_parameters [OF v t u] obtain r where
    r: "requests (snd (send_osmand_position ?e ?a)) = [r]"
    and k: "\<And>k. k \<notin> fst ` set (custom_attributes ?a) \<Longrightarrow> map_of (query r) k =
          (if k = ''id'' then Some (device_id ?a)
           else if k = ''lat'' then Some (lat ?a)
           else if k = ''lon'' then Some (lon ?a)
           else if k = ''speed'' then (if speed ?a = PNone then None else Some (speed ?a))
           else if k = ''bearing'' then (if bearing ?a = PNone then None else Some (bearing ?a))
           else if k = ''altitude'' then (if altitude ?a = PNone then None else Some (altitude ?a))
           else if k = ''accuracy'' then (if accuracy ?a = PNone then None else Some (accuracy ?a))
           else if k = ''hdop'' then (if hdop ?a = PNone then None else Some (hdop ?a))
           else if k = ''batt'' then (if battery ?a = PNone then None else Some (battery ?a))
           else if k = ''charge'' then
             (if charge ?a = PNone then None
              else Some (PStr (if truthy (charge ?a) then ''true'' else ''false'')))
           else if k = ''valid'' then
             (if valid ?a = PNone then None
              else Some (PStr (if truthy (valid ?a) then ''true'' else ''false'')))
           else if k = ''driverUniqueId'' then
             (if driver_unique_id ?a = PNone then None else Some (driver_unique_id ?a))
           else if k = ''timestamp'' then
             (case timestamp ?a of
                PDatetime d \<Rightarrow>
                  (case datetime_timestamp (local_utcoffset ?e) d of
                     Inl x \<Rightarrow> None
                   | Inr t \<Rightarrow> Some (PInt (float_to_int (round_binary64 (t * 1000)))))
              | _ \<Rightarrow> None)
           else None)"
    by blast
  have "map_of (query r) ''id'' = Some (PStr ''veh-1'')"
    and "map_of (query r) ''lat'' = Some (PFloat (Finite (377749 / 10000)))"
    and "map_of (query r) ''batt'' = Some (PInt 85)"
    and "map_of (query r) ''charge'' = Some (PStr ''true'')"
    and "map_of (query r) ''timestamp'' = Some (PInt 1704067200000)"
    and "map_of (query r) ''battery'' = None"
    and "map_of (query r) ''speed'' = None"
    and "map_of (query r) ''valid'' = None"
    by (simp_all add: k required_only_def timestamp_known_instant milliseconds_known_instant)
  with v w c r show ?thesis
    by blast
qed

text \<open>
  C3. For every request a call issues: when the reply is a response, the call succeeds
  (returns \<open>True\<close>) exactly when the status is 200; with any other status, 2xx or not,
  it raises an error whose message holds the status and the body of the response.
\<close>

theorem only_status_200_succeeds:
  assumes "Get r \<in> set (snd (send_osmand_position e a))"
    and "net e r = Response status body"
  shows "fst (send_osmand_position e a) =
     (if status = 200 then Inr True
      else Inl (ClientError (''Traccar request failed with status '' @ str_int status
                  @ '': '' @ body)))"
  using Get_in_send [OF assms(1)] assms(2) by (simp add: attempt_def)

theorem only_status_200_succeeds_witness:
  "Get \<lparr> via = Own, url = ''http://localhost:5055'',
         query = [(''id'', PStr ''robot''), (''lat'', PInt 10), (''lon'', PInt 20)],
         total_timeout = PInt 30 \<rparr>
     \<in> set (snd (send_osmand_position (always (Response 204 ''no content''))
                (required_only (PStr ''http://localhost:5055/'') (PStr ''robot'')
                   (PInt 10) (PInt 20))))
   \<and> fst (send_osmand_position (always (Response 204 ''no content''))
           (required_only (PStr ''http://localhost:5055/'') (PStr ''robot'') (PInt 10) (PInt 20)))
       = Inl (ClientError ''Traccar request failed with status 204: no content'')"
proof -
  let ?r = "\<lparr> via = Own, url = ''http://localhost:5055'',
         query = [(''id'', PStr ''robot''), (''lat'', PInt 10), (''lon'', PInt 20)],
         total_timeout = PInt 30 \<rparr>"
  let ?e = "always (Response 204 ''no content'')"
  let ?a = "required_only (PStr ''http://localhost:5055/'') (PStr ''robot'') (PInt 10) (PInt 20)"
  have g: "Get ?r \<in> set (snd (send_osmand_position ?e ?a))"
    by (simp add: evaluate)
  have n: "net ?e ?r = Response 204 ''no content''"
    by (simp add: always_def)
  from only_status_200_succeeds [OF g n]
  have "fst (send_osmand_position ?e ?a)
       = Inl (ClientError ''Traccar request failed with status 204: no content'')"
    by (simp add: str_int_def str_nat.simps)
  with g show ?thesis
    by (rule conjI)
qed

text \<open>
  C4, as the code has it. For a call that issued its request: a failure at the network
  level reaches the caller as the very exception the HTTP library raised, unchanged, and
  a status other than 200 reaches it as a \<open>ClientError\<close> whose message holds the status
  and the body. The client wraps neither in an error type of its own.
\<close>

theorem failures_by_kind:
  assumes "Get r \<in> set (snd (send_osmand_position e a))"
  shows "(\<forall>x. net e r = Raises x \<longrightarrow> fst (send_osmand_position e a) = Inl x)
    \<and> (\<forall>status body. net e r = Response status body \<and> status \<noteq> 200 \<longrightarrow>
          fst (send_osmand_position e a) =
            Inl (ClientError (''Traccar request failed with status '' @ str_int status
                   @ '': '' @ body)))"
proof (intro conjI allI impI)
  fix x assume "net e r = Raises x"
  then show "fst (send_osmand_position e a) = Inl x"
    using Get_in_send [OF assms] by (simp add: attempt_def)
next
  fix status body assume "net e r = Response status body \<and> status \<noteq> 200"
  then show "fst (send_osmand_position e a) =
            Inl (ClientError (''Traccar request failed with status '' @ str_int status
                   @ '': '' @ body))"
    using Get_in_send [OF assms] by (simp add: attempt_def)
qed

theorem failures_by_kind_witness:
  "Get \<lparr> via = Own, url = ''http://localhost:5055'',
         query = [(''id'', PStr ''robot''), (''lat'', PInt 10), (''lon'', PInt 20)],
         total_timeout = PInt 30 \<rparr>
     \<in> set (snd (send_osmand_position (always (Raises TimeoutError))
                (required_only (PStr ''http://localhost:5055'') (PStr ''robot'')
                   (PInt 10) (PInt 20))))
   \<and> fst (send_osmand_position (always (Raises TimeoutError))
           (required_only (PStr ''http://localhost:5055'') (PStr ''robot'') (PInt 10) (PInt 20)))
       = Inl TimeoutError
   \<and> Get \<lparr> via = Own, url = ''http://localhost:5055'',
         query = [(''id'', PStr ''robot''), (''lat'', PInt 10), (''lon'', PInt 20)],
         total_timeout = PInt 30 \<rparr>
     \<in> set (snd (send_osmand_position (always (Response 404 ''Not Found''))
                (required_only (PStr ''http://localhost:5055'') (PStr ''robot'')
                   (PInt 10) (PInt 20))))
   \<and> fst (send_osmand_position (always (Response 404 ''Not Found''))
           (required_only (PStr ''http://localhost:5055'') (PStr ''robot'') (PInt 10) (PInt 20)))
       = Inl (ClientError ''Traccar request failed with status 404: Not Found'')"
proof -
  let ?r = "\<lparr> via = Own, url = ''http://localhost:5055'',
         query = [(''id'', PStr ''robot''), (''lat'', PInt 10), (''lon'', PInt 20)],
         total_timeout = PInt 30 \<rparr>"
  let ?e = "always (Raises TimeoutError)"
  let ?e' = "always (Response 404 ''Not Found'')"
  let ?a = "required_only (PStr ''http://localhost:5055'') (PStr ''robot'') (PInt 10) (PInt 20)"
  have g: "Get ?r \<in> set (snd (send_osmand_position ?e ?a))"
    by (simp add: evaluate)
  have n: "net ?e ?r = Raises TimeoutError"
    by (simp add: always_def)
  have "\<forall>x. net ?e ?r = Raises x \<longrightarrow> fst (send_osmand_position ?e ?a) = Inl x"
    using failures_by_kind [OF g] by (rule conjunct1)
  from this [rule_format, OF n]
  have 1: "fst (send_osmand_position ?e ?a) = Inl TimeoutError" .
  have g': "Get ?r \<in> set (snd (send_osmand_position ?e' ?a))"
    by (simp add: evaluate)
  have n': "net ?e' ?r = Response 404 ''Not Found'' \<and> (404 :: int) \<noteq> 200"
    by (simp add: always_def)
  have "\<forall>status body. net ?e' ?r = Response status body \<and> status \<noteq> 200 \<longrightarrow>
          fst (send_osmand_position ?e' ?a) =
            Inl (ClientError (''Traccar request failed with status '' @ str_int status
                   @ '': '' @ body))"
    using failures_by_kind [OF g'] by (rule conjunct2)
  from this [rule_format, OF n']
  have 2: "fst (send_osmand_position ?e' ?a)
       = Inl (ClientError ''Traccar request failed with status 404: Not Found'')"
    by (simp add: str_int_def str_nat.simps)
  from g 1 g' 2 show ?thesis
    by (intro conjI)
qed

text \<open>
  C4 as stated fails: a refused connection and a status 500 both end in an instance of
  \<open>ClientError\<close>, so one error type covers both outcomes.
\<close>

theorem client_error_covers_both_failures:
  "fst (send_osmand_position (always (Raises (ClientConnectorError ''Connection refused'')))
          (required_only (PStr ''http://localhost:5055'') (PStr ''robot'') (PInt 10) (PInt 20)))
     = Inl (ClientConnectorError ''Connection refused'')
   \<and> isinstance_ClientError (ClientConnectorError ''Connection refused'')
   \<and> fst (send_osmand_position (always (Response 500 ''oops''))
          (required_only (PStr ''http://localhost:5055'') (PStr ''robot'') (PInt 10) (PInt 20)))
     = Inl (ClientError ''Traccar request failed with status 500: oops'')
   \<and> isinstance_ClientError (ClientError ''Traccar request failed with status 500: oops'')"
  by (simp add: evaluate)

text \<open>
  C5, as the code has it. The custom attributes are the keywords of the call that name no
  parameter of the function. Each of them is in the parameters of the request under its
  own key with its own value, whatever the protocol fields computed: so a custom \<open>id\<close>,
  \<open>batt\<close> or \<open>driverUniqueId\<close> overrides. A keyword named \<open>lat\<close>, \<open>lon\<close>, \<open>timestamp\<close>,
  \<open>speed\<close>, \<open>bearing\<close>, \<open>altitude\<close>, \<open>accuracy\<close>, \<open>hdop\<close>, \<open>charge\<close> or \<open>valid\<close> is the
  parameter of that name and never a custom attribute.
\<close>

theorem custom_attribute_overrides:
  assumes "bind_arguments pos kw = Inr a"
    and "Get r \<in> set (snd (call e pos kw))"
  shows "(\<forall>k v. (k, v) \<in> set kw \<and> k \<notin> set parameter_names \<longrightarrow> map_of (query r) k = Some v)
    \<and> fst ` set (custom_attributes a) \<inter> set parameter_names = {}
    \<and> {''id'', ''batt'', ''driverUniqueId''} \<inter> set parameter_names = {}
    \<and> {''lat'', ''lon'', ''timestamp'', ''speed'', ''bearing'', ''altitude'', ''accuracy'',
        ''hdop'', ''charge'', ''valid''} \<subseteq> set parameter_names"
proof (intro conjI allI impI)
  note b = bind_arguments_Inr [OF assms(1)]
  have p: "build_params (local_utcoffset e) a = Inr (query r)"
    using assms(2) Get_in_send unfolding call_bound [OF assms(1)] by blast
  have d: "distinct (map fst (custom_attributes a))"
    unfolding b(2) using b(1) by (simp add: distinct_map_filter)
  show "map_of (query r) k = Some v" if "(k, v) \<in> set kw \<and> k \<notin> set parameter_names" for k v
  proof -
    from that have "(k, v) \<in> set (custom_attributes a)"
      unfolding b(2) by simp
    with p d show ?thesis
      by (rule build_params_custom)
  qed
  show "fst ` set (custom_attributes a) \<inter> set parameter_names = {}"
    unfolding b(2) by auto
  show "{''id'', ''batt'', ''driverUniqueId''} \<inter> set parameter_names = {}"
    by (simp add: parameter_names_def)
  show "{''lat'', ''lon'', ''timestamp'', ''speed'', ''bearing'', ''altitude'', ''accuracy'',
        ''hdop'', ''charge'', ''valid''} \<subseteq> set parameter_names"
    by (simp add: parameter_names_def)
qed

theorem custom_attribute_overrides_witness:
  "Get \<lparr> via = Own, url = ''http://localhost:5055'',
         query = [(''id'', PStr ''other''), (''lat'', PInt 10), (''lon'', PInt 20),
                  (''room'', PStr ''kitchen'')],
         total_timeout = PInt 30 \<rparr>
     \<in> set (snd (call (always (Response 200 []))
                [PStr ''http://localhost:5055'', PStr ''robot'', PInt 10, PInt 20]
                [(''id'', PStr ''other''), (''room'', PStr ''kitchen'')]))
   \<and> map_of [(''id'', PStr ''other''), (''lat'', PInt 10), (''lon'', PInt 20),
              (''room'', PStr ''kitchen'')] ''id'' = Some (PStr ''other'')"
proof -
  let ?r = "\<lparr> via = Own, url = ''http://localhost:5055'',
         query = [(''id'', PStr ''other''), (''lat'', PInt 10), (''lon'', PInt 20),
                  (''room'', PStr ''kitchen'')],
         total_timeout = PInt 30 \<rparr>"
  let ?pos = "[PStr ''http://localhost:5055'', PStr ''robot'', PInt 10, PInt 20]"
  let ?kw = "[(''id'', PStr ''other''), (''room'', PStr ''kitchen'')]"
  let ?a = "(required_only (PStr ''http://localhost:5055'') (PStr ''robot'') (PInt 10) (PInt 20))
              \<lparr> custom_attributes := ?kw \<rparr>"
  have b: "bind_arguments ?pos ?kw = Inr ?a"
    by (simp add: evaluate_call required_only_def)
  have g: "Get ?r \<in> set (snd (call (always (Response 200 [])) ?pos ?kw))"
    unfolding call_bound [OF b] by (simp add: evaluate)
  have "\<forall>k v. (k, v) \<in> set ?kw \<and> k \<notin> set parameter_names \<longrightarrow> map_of (query ?r) k = Some v"
    using custom_attribute_overrides [OF b g] by (rule conjunct1)
  from this [rule_format, of "''id''" "PStr ''other''"]
  have "map_of (query ?r) ''id'' = Some (PStr ''other'')"
    by (simp add: parameter_names_def)
  with g show ?thesis
    by simp
qed

text \<open>
  C5 as stated fails for the key \<open>lat\<close>: given besides the positional latitude, the
  keyword is a second value for the same parameter and the call is a \<open>TypeError\<close>; given
  instead of it, the keyword is the latitude itself, and 999 fails validation. Either
  way no request carries \<open>lat = 999\<close>.
\<close>

theorem lat_keyword_is_no_custom_attribute:
  "call (always (Response 200 []))
     [PStr ''http://localhost:5055'', PStr ''robot'', PInt 10, PInt 20] [(''lat'', PInt 999)]
     = (Inl TypeError, [])
   \<and> call (always (Response 200 []))
     [PStr ''http://localhost:5055'', PStr ''robot''] [(''lon'', PInt 20), (''lat'', PInt 999)]
     = (Inl (ValueError ''lat must be a number between -90 and 90''), [])"
  by (simp add: evaluate_call evaluate)

text \<open>
  C6. A call given a session neither creates nor closes one. A call given none either has
  no effect at all (it was rejected before the request, and created no session), or its
  effects begin with the creation of its own session and end with closing it, with no
  other session effect in between: whatever the network replied or raised.
\<close>

theorem session_lifecycle:
  "(session a \<noteq> PNone \<longrightarrow>
      SessionCreated \<notin> set (snd (send_osmand_position e a))
      \<and> (\<forall>s. SessionClosed s \<notin> set (snd (send_osmand_position e a))))
   \<and> (session a = PNone \<longrightarrow>
      snd (send_osmand_position e a) = []
      \<or> (\<exists>mid. snd (send_osmand_position e a) = [SessionCreated] @ mid @ [SessionClosed Own]
            \<and> SessionCreated \<notin> set mid \<and> (\<forall>s. SessionClosed s \<notin> set mid)))"
proof -
  consider x where "send_osmand_position e a = (Inl x, [])"
    | p u where "validate a = None" "build_params (local_utcoffset e) a = Inr p"
        "base_url (traccar_url a) = Inr u"
    using send_effects_empty_or_reached by blast
  then show ?thesis
  proof cases
    case 1
    then show ?thesis by simp
  next
    case 2
    show ?thesis
      unfolding send_reached [OF 2]
      using attempt_no_session_effects by auto
  qed
qed

theorem session_lifecycle_witness:
  "snd (send_osmand_position (always (Raises TimeoutError))
          (required_only (PStr ''http://localhost:5055'') (PStr ''robot'') (PInt 10) (PInt 20)))
     \<noteq> []
   \<and> (\<exists>mid. snd (send_osmand_position (always (Raises TimeoutError))
                  (required_only (PStr ''http://localhost:5055'') (PStr ''robot'')
                     (PInt 10) (PInt 20)))
              = [SessionCreated] @ mid @ [SessionClosed Own]
            \<and> SessionCreated \<notin> set mid \<and> (\<forall>s. SessionClosed s \<notin> set mid))
   \<and> (\<forall>s. SessionClosed s \<notin> set (snd (send_osmand_position (always (Response 500 ''oops''))
          ((required_only (PStr ''http://localhost:5055'') (PStr ''robot'') (PInt 10) (PInt 20))
             \<lparr> session := PSession 7 \<rparr>))))"
proof -
  let ?e = "always (Raises TimeoutError)"
  let ?a = "required_only (PStr ''http://localhost:5055'') (PStr ''robot'') (PInt 10) (PInt 20)"
  let ?e' = "always (Response 500 ''oops'')"
  let ?a' = "?a \<lparr> session := PSession 7 \<rparr>"
  have own: "session ?a = PNone"
    by (simp add: required_only_def)
  have ne: "snd (send_osmand_position ?e ?a) \<noteq> []"
    by (simp add: evaluate)
  have "session ?a = PNone \<longrightarrow>
      snd (send_osmand_position ?e ?a) = []
      \<or> (\<exists>mid. snd (send_osmand_position ?e ?a) = [SessionCreated] @ mid @ [SessionClosed Own]
            \<and> SessionCreated \<notin> set mid \<and> (\<forall>s. SessionClosed s \<notin> set mid))"
    using session_lifecycle [of ?a ?e] by (rule conjunct2)
  with own ne have 1: "\<exists>mid. snd (send_osmand_position ?e ?a)
        = [SessionCreated] @ mid @ [SessionClosed Own]
      \<and> SessionCreated \<notin> set mid \<and> (\<forall>s. SessionClosed s \<notin> set mid)"
    by (elim impE disjE) (rule own, erule notE, assumption+)
  have given: "session ?a' \<noteq> PNone"
    by (simp add: required_only_def)
  have "session ?a' \<noteq> PNone \<longrightarrow>
      SessionCreated \<notin> set (snd (send_osmand_position ?e' ?a'))
      \<and> (\<forall>s. SessionClosed s \<notin> set (snd (send_osmand_position ?e' ?a')))"
    using session_lifecycle [of ?a' ?e'] by (rule conjunct1)
  with given have 2: "\<forall>s. SessionClosed s \<notin> set (snd (send_osmand_position ?e' ?a'))"
    by (elim impE) (assumption, erule conjunct2)
  from ne 1 2 show ?thesis
    by (intro conjI)
qed

text \<open>
  C8, as the code has it. A call calls \<^verbatim>\<open>session.get\<close> at most once and never a second
  time: exactly once when its arguments pass validation and conversion, and not at all
  when they are rejected, and then the call has no effect whatever. It returns only
  \<open>True\<close>, and only when that one call was answered with status 200. It prints one line to
  standard output when it succeeds, and nothing otherwise. Its effects are then exactly,
  in order: the creation of its own session when none was supplied, the call to
  \<^verbatim>\<open>session.get\<close>, the printed line if any, and the closing of its own session.
\<close>

theorem effects_of_a_call:
  "(requests (snd (send_osmand_position e a)) = []
      \<or> (\<exists>r. requests (snd (send_osmand_position e a)) = [r]))
   \<and> (validate a = None \<and> (\<exists>p. build_params (local_utcoffset e) a = Inr p)
        \<and> (\<exists>u. base_url (traccar_url a) = Inr u)
      \<longrightarrow> (\<exists>r. requests (snd (send_osmand_position e a)) = [r]))
   \<and> (validate a \<noteq> None \<or> (\<exists>x. build_params (local_utcoffset e) a = Inl x)
        \<or> (\<exists>x. base_url (traccar_url a) = Inl x)
      \<longrightarrow> snd (send_osmand_position e a) = [])
   \<and> (\<forall>b. fst (send_osmand_position e a) = Inr b \<longrightarrow>
         b \<and> (\<exists>r body. requests (snd (send_osmand_position e a)) = [r]
                 \<and> net e r = Response 200 body))
   \<and> printed (snd (send_osmand_position e a)) =
        (if \<exists>b. fst (send_osmand_position e a) = Inr b
         then [''Traccar request succeeded with status 200''] else [])
   \<and> (snd (send_osmand_position e a) = []
        \<or> (\<exists>r. snd (send_osmand_position e a) =
              (if session a = PNone then [SessionCreated] else [])
                @ [Get r] @ map Print (printed (snd (send_osmand_position e a)))
                @ (if session a = PNone then [SessionClosed Own] else [])))"
proof -
  have rejected: "snd (send_osmand_position e a) = []"
    if "validate a \<noteq> None \<or> (\<exists>x. build_params (local_utcoffset e) a = Inl x)
        \<or> (\<exists>x. base_url (traccar_url a) = Inl x)"
    using send_unreached [OF that] by auto
  consider "validate a \<noteq> None \<or> (\<exists>x. build_params (local_utcoffset e) a = Inl x)
        \<or> (\<exists>x. base_url (traccar_url a) = Inl x)"
    | p u where "validate a = None" "build_params (local_utcoffset e) a = Inr p"
        "base_url (traccar_url a) = Inr u"
    by (metis sum.exhaust)
  then show ?thesis
  proof cases
    case 1
    from send_unreached [OF 1] obtain x where x: "send_osmand_position e a = (Inl x, [])"
      by blast
    have "\<not> (validate a = None \<and> (\<exists>p. build_params (local_utcoffset e) a = Inr p)
        \<and> (\<exists>u. base_url (traccar_url a) = Inr u))"
      using 1 by auto
    with x show ?thesis
      by (simp add: requests_def printed_def)
  next
    case 2
    let ?r = "\<lparr> via = (if session a = PNone then Own else Caller (session a)),
        url = u, query = p, total_timeout = timeout a \<rparr>"
    have reached: "\<not> (validate a \<noteq> None \<or> (\<exists>x. build_params (local_utcoffset e) a = Inl x)
        \<or> (\<exists>x. base_url (traccar_url a) = Inl x))"
      using 2 by simp
    have rq: "requests (snd (send_osmand_position e a)) = [?r]"
      by (rule requests_send_reached [OF 2])
    have out: "fst (send_osmand_position e a) = fst (attempt e ?r)"
      unfolding send_reached [OF 2] by simp
    have eff: "snd (send_osmand_position e a) =
        (if session a = PNone then [SessionCreated] else []) @ snd (attempt e ?r)
          @ (if session a = PNone then [SessionClosed Own] else [])"
      unfolding send_reached [OF 2] by simp
    have pr: "printed (snd (send_osmand_position e a)) = printed (snd (attempt e ?r))"
      unfolding eff by (simp add: printed_def)
    have ok: "fst (attempt e ?r) = Inr b \<Longrightarrow> b \<and> (\<exists>body. net e ?r = Response 200 body)" for b
      by (auto simp: attempt_def split: reply.splits if_splits)
    have pa: "printed (snd (attempt e ?r)) =
        (if \<exists>b. fst (attempt e ?r) = Inr b
         then [''Traccar request succeeded with status 200''] else [])"
      by (auto simp: attempt_def printed_def str_int_def str_nat.simps split: reply.splits)
    have sh: "snd (attempt e ?r) = [Get ?r] @ map Print (printed (snd (attempt e ?r)))"
      by (simp add: attempt_def printed_def split: reply.splits)
    have 6: "\<exists>r. snd (send_osmand_position e a) =
              (if session a = PNone then [SessionCreated] else [])
                @ [Get r] @ map Print (printed (snd (send_osmand_position e a)))
                @ (if session a = PNone then [SessionClosed Own] else [])"
      unfolding pr using eff sh by (intro exI [of _ ?r]) simp
    have 4: "\<forall>b. fst (send_osmand_position e a) = Inr b \<longrightarrow>
         b \<and> (\<exists>r body. requests (snd (send_osmand_position e a)) = [r]
                 \<and> net e r = Response 200 body)"
      unfolding rq out using ok by auto
    have 5: "printed (snd (send_osmand_position e a)) =
        (if \<exists>b. fst (send_osmand_position e a) = Inr b
         then [''Traccar request succeeded with status 200''] else [])"
      unfolding pr out by (rule pa)
    from rq reached 4 5 6 show ?thesis
      by (intro conjI) blast+
  qed
qed

theorem effects_of_a_call_witness:
  "fst (send_osmand_position (always (Response 200 []))
      (required_only (PStr ''http://localhost:5055'') (PStr ''robot'') (PInt 10) (PInt 20)))
     = Inr True
   \<and> (\<exists>r body. requests (snd (send_osmand_position (always (Response 200 []))
          (required_only (PStr ''http://localhost:5055'') (PStr ''robot'') (PInt 10) (PInt 20))))
          = [r]
        \<and> net (always (Response 200 [])) r = Response 200 body)
   \<and> validate (required_only (PStr ''http://localhost:5055'') (PStr ''robot'')
         (PInt 91) (PInt 20)) \<noteq> None
   \<and> snd (send_osmand_position (always (Response 200 []))
      (required_only (PStr ''http://localhost:5055'') (PStr ''robot'') (PInt 91) (PInt 20)))
     = []"
proof -
  let ?e = "always (Response 200 [])"
  let ?a = "required_only (PStr ''http://localhost:5055'') (PStr ''robot'') (PInt 10) (PInt 20)"
  let ?a' = "required_only (PStr ''http://localhost:5055'') (PStr ''robot'') (PInt 91) (PInt 20)"
  have ok: "fst (send_osmand_position ?e ?a) = Inr True"
    by (simp add: evaluate)
  have "\<forall>b. fst (send_osmand_position ?e ?a) = Inr b \<longrightarrow>
         b \<and> (\<exists>r body. requests (snd (send_osmand_position ?e ?a)) = [r]
                 \<and> net ?e r = Response 200 body)"
    using effects_of_a_call [of ?e ?a] by (elim conjE)
  from this [rule_format, OF ok]
  have 1: "\<exists>r body. requests (snd (send_osmand_position ?e ?a)) = [r]
                 \<and> net ?e r = Response 200 body"
    by (rule conjunct2)
  have bad: "validate ?a' \<noteq> None"
    by (simp add: validate_def required_only_def between_def)
  then have bad': "validate ?a' \<noteq> None \<or> (\<exists>x. build_params (local_utcoffset ?e) ?a' = Inl x)
        \<or> (\<exists>x. base_url (traccar_url ?a') = Inl x)"
    by (rule disjI1)
  have "validate ?a' \<noteq> None \<or> (\<exists>x. build_params (local_utcoffset ?e) ?a' = Inl x)
        \<or> (\<exists>x. base_url (traccar_url ?a') = Inl x)
      \<longrightarrow> snd (send_osmand_position ?e ?a') = []"
    using effects_of_a_call [of ?e ?a'] by (elim conjE)
  from this [rule_format, OF bad']
  have 2: "snd (send_osmand_position ?e ?a') = []" .
  from ok 1 bad 2 show ?thesis
    by (intro conjI)
qed

text \<open>
  C8 as stated fails: on success the client itself prints a line.
\<close>

theorem success_prints_a_line:
  "printed (snd (send_osmand_position (always (Response 200 []))
      (required_only (PStr ''http://localhost:5055'') (PStr ''robot'') (PInt 10) (PInt 20))))
     = [''Traccar request succeeded with status 200'']"
  by (simp add: evaluate printed_def)

text \<open>
  C9, as the code has it. A boolean latitude never takes the latitude's error branch, and
  a boolean longitude never the longitude's; with a non-empty \<open>device_id\<close> and both
  coordinates boolean, validation passes. The boolean is not converted: it is handed to
  \<^verbatim>\<open>session.get\<close> as the \<open>lat\<close> (or \<open>lon\<close>) parameter, the boolean itself.
\<close>

theorem boolean_coordinates_accepted:
  "(lat a = PBool b \<longrightarrow>
      validate a \<noteq> Some (ValueError ''lat must be a number between -90 and 90''))
   \<and> (lon a = PBool b \<longrightarrow>
      validate a \<noteq> Some (ValueError ''lon must be a number between -180 and 180''))
   \<and> (truthy (device_id a) \<and> lat a = PBool b \<and> lon a = PBool c \<longrightarrow> validate a = None)
   \<and> (\<forall>r. Get r \<in> set (snd (send_osmand_position e a)) \<and> lat a = PBool b
          \<and> ''lat'' \<notin> fst ` set (custom_attributes a)
        \<longrightarrow> map_of (query r) ''lat'' = Some (PBool b))
   \<and> (\<forall>r. Get r \<in> set (snd (send_osmand_position e a)) \<and> lon a = PBool b
          \<and> ''lon'' \<notin> fst ` set (custom_attributes a)
        \<longrightarrow> map_of (query r) ''lon'' = Some (PBool b))"
proof (intro conjI allI impI)
  show "lat a = PBool b \<Longrightarrow>
      validate a \<noteq> Some (ValueError ''lat must be a number between -90 and 90'')"
    by (simp add: validate_def between_def)
  show "lon a = PBool b \<Longrightarrow>
      validate a \<noteq> Some (ValueError ''lon must be a number between -180 and 180'')"
    by (simp add: validate_def between_def)
  show "truthy (device_id a) \<and> lat a = PBool b \<and> lon a = PBool c \<Longrightarrow> validate a = None"
    by (simp add: validate_def between_def)
next
  fix r
  assume h: "Get r \<in> set (snd (send_osmand_position e a)) \<and> lat a = PBool b
          \<and> ''lat'' \<notin> fst ` set (custom_attributes a)"
  then have "build_params (local_utcoffset e) a = Inr (query r)"
    using Get_in_send by blast
  from build_params_protocol [OF this, of "''lat''"] h
  show "map_of (query r) ''lat'' = Some (PBool b)"
    by simp
next
  fix r
  assume h: "Get r \<in> set (snd (send_osmand_position e a)) \<and> lon a = PBool b
          \<and> ''lon'' \<notin> fst ` set (custom_attributes a)"
  then have "build_params (local_utcoffset e) a = Inr (query r)"
    using Get_in_send by blast
  from build_params_protocol [OF this, of "''lon''"] h
  show "map_of (query r) ''lon'' = Some (PBool b)"
    by simp
qed

theorem boolean_coordinates_accepted_witness:
  "validate (required_only (PStr ''http://localhost:5055'') (PStr ''robot'')
               (PBool True) (PBool False)) = None
   \<and> Get \<lparr> via = Own, url = ''http://localhost:5055'',
         query = [(''id'', PStr ''robot''), (''lat'', PBool True), (''lon'', PBool False)],
         total_timeout = PInt 30 \<rparr>
     \<in> set (snd (send_osmand_position (always (Raises TypeError))
                (required_only (PStr ''http://localhost:5055'') (PStr ''robot'')
                   (PBool True) (PBool False))))
   \<and> map_of (query \<lparr> via = Own, url = ''http://localhost:5055'',
         query = [(''id'', PStr ''robot''), (''lat'', PBool True), (''lon'', PBool False)],
         total_timeout = PInt 30 \<rparr>) ''lon'' = Some (PBool False)"
proof -
  let ?e = "always (Raises TypeError)"
  let ?a = "required_only (PStr ''http://localhost:5055'') (PStr ''robot'')
              (PBool True) (PBool False)"
  let ?r = "\<lparr> via = Own, url = ''http://localhost:5055'',
         query = [(''id'', PStr ''robot''), (''lat'', PBool True), (''lon'', PBool False)],
         total_timeout = PInt 30 \<rparr>"
  note th = boolean_coordinates_accepted [of ?a _ _ ?e]
  have h: "truthy (device_id ?a) \<and> lat ?a = PBool True \<and> lon ?a = PBool False"
    by (simp add: required_only_def)
  have "truthy (device_id ?a) \<and> lat ?a = PBool True \<and> lon ?a = PBool False
      \<longrightarrow> validate ?a = None"
    using th [of True False] by (elim conjE)
  with h have v: "validate ?a = None"
    by (rule rev_mp)
  have g: "Get ?r \<in> set (snd (send_osmand_position ?e ?a))"
    by (simp add: evaluate)
  have h': "Get ?r \<in> set (snd (send_osmand_position ?e ?a)) \<and> lon ?a = PBool False
          \<and> ''lon'' \<notin> fst ` set (custom_attributes ?a)"
    using g by (simp add: required_only_def)
  have "\<forall>r. Get r \<in> set (snd (send_osmand_position ?e ?a)) \<and> lon ?a = PBool False
          \<and> ''lon'' \<notin> fst ` set (custom_attributes ?a)
        \<longrightarrow> map_of (query r) ''lon'' = Some (PBool False)"
    using th [of False False] by (elim conjE)
  from this [rule_format, OF h'] have l: "map_of (query ?r) ''lon'' = Some (PBool False)" .
  from v g l show ?thesis
    by (intro conjI)
qed

text \<open>
  C9 as stated fails: a latitude \<open>True\<close> is not encoded as the coordinate 1. The client
  hands the boolean itself to \<^verbatim>\<open>session.get\<close>, which refuses a boolean parameter with a
  \<^verbatim>\<open>TypeError\<close>, and that is how the call ends.
\<close>

theorem boolean_latitude_is_not_encoded:
  "Get \<lparr> via = Own, url = ''http://localhost:5055'',
         query = [(''id'', PStr ''robot''), (''lat'', PBool True), (''lon'', PInt 20)],
         total_timeout = PInt 30 \<rparr>
     \<in> set (snd (send_osmand_position (always (Raises TypeError))
                (required_only (PStr ''http://localhost:5055'') (PStr ''robot'')
                   (PBool True) (PInt 20))))
   \<and> map_of [(''id'', PStr ''robot''), (''lat'', PBool True), (''lon'', PInt 20)] ''lat''
       = Some (PBool True)
   \<and> map_of [(''id'', PStr ''robot''), (''lat'', PBool True), (''lon'', PInt 20)] ''lat''
       \<noteq> Some (PInt 1)
   \<and> fst (send_osmand_position (always (Raises TypeError))
           (required_only (PStr ''http://localhost:5055'') (PStr ''robot'')
              (PBool True) (PInt 20)))
       = Inl TypeError"
  by (simp add: evaluate)

text \<open>
  C10. Take any history of events handled from the initial state, where
  \<open>lastKnownBattery\<close> is \<open>None\<close>, and a GPS event handled next. The report it triggers has
  no \<open>batt\<close> parameter when the history holds no battery event, and otherwise has as
  \<open>batt\<close> the value of the most recent one.
\<close>

theorem report_carries_latest_battery:
  assumes "Get r \<in> set (snd (handle e u did (GpsPositionEvent la lo)
                               (fst (run e u did history PNone))))"
  shows "map_of (query r) ''batt'' =
           (case most_recent_battery history of None \<Rightarrow> None | Some v \<Rightarrow> Some (PInt v))"
proof -
  let ?b = "case most_recent_battery history of None \<Rightarrow> PNone | Some v \<Rightarrow> PInt v"
  let ?a = "(required_only u did la lo) \<lparr> battery := ?b \<rparr>"
  from assms have "Get r \<in> set (snd (send_osmand_position e ?a))"
    unfolding run_battery
    by (simp add: sendGpsPositionToTraccar_def call_bound [OF bind_report])
  then have "build_params (local_utcoffset e) ?a = Inr (query r)"
    using Get_in_send by blast
  from build_params_protocol [OF this, of "''batt''"] show ?thesis
    by (simp add: required_only_def split: option.splits)
qed

theorem report_carries_latest_battery_witness:
  "Get \<lparr> via = Own, url = ''http://localhost:5055'',
         query = [(''id'', PStr ''robot''), (''lat'', PInt 10), (''lon'', PInt 20),
                  (''batt'', PInt 85)],
         total_timeout = PInt 30 \<rparr>
     \<in> set (snd (handle (always (Response 200 [])) (PStr ''http://localhost:5055'') (PStr ''robot'')
                   (GpsPositionEvent (PInt 10) (PInt 20))
                   (fst (run (always (Response 200 [])) (PStr ''http://localhost:5055'')
                          (PStr ''robot'')
                          [BatteryEvent 90, GpsPositionEvent (PInt 1) (PInt 2), BatteryEvent 85,
                           PositionsEvent ''p'']
                          PNone))))
   \<and> map_of [(''id'', PStr ''robot''), (''lat'', PInt 10), (''lon'', PInt 20),
              (''batt'', PInt 85)] ''batt''
       = (case most_recent_battery
                 [BatteryEvent 90, GpsPositionEvent (PInt 1) (PInt 2), BatteryEvent 85,
                  PositionsEvent ''p'']
          of None \<Rightarrow> None | Some v \<Rightarrow> Some (PInt v))
   \<and> most_recent_battery
         [BatteryEvent 90, GpsPositionEvent (PInt 1) (PInt 2), BatteryEvent 85,
          PositionsEvent ''p''] = Some 85"
proof -
  let ?r = "\<lparr> via = Own, url = ''http://localhost:5055'',
         query = [(''id'', PStr ''robot''), (''lat'', PInt 10), (''lon'', PInt 20),
                  (''batt'', PInt 85)],
         total_timeout = PInt 30 \<rparr>"
  let ?h = "[BatteryEvent 90, GpsPositionEvent (PInt 1) (PInt 2), BatteryEvent 85,
             PositionsEvent ''p'']"
  have g: "Get ?r \<in> set (snd (handle (always (Response 200 [])) (PStr ''http://localhost:5055'')
                   (PStr ''robot'') (GpsPositionEvent (PInt 10) (PInt 20))
                   (fst (run (always (Response 200 [])) (PStr ''http://localhost:5055'')
                          (PStr ''robot'') ?h PNone))))"
    by (simp add: sendGpsPositionToTraccar_def evaluate_call evaluate)
  have m: "most_recent_battery ?h = Some 85"
    by simp
  from report_carries_latest_battery [OF g] g m show ?thesis
    by simp
qed

text \<open>
  C7. The encoded timestamp is not always the exact number of milliseconds since the
  epoch. The instant 1970-01-01T00:00:01.001Z is 1001000 microseconds, that is 1001
  milliseconds, after the epoch; its \<^verbatim>\<open>timestamp()\<close> is the float nearest to 1.001, the
  product of that float by 1000 rounds to the float just below 1001, and \<^verbatim>\<open>int\<close>
  truncates it: the request carries 1000. (The instant 2024-01-01T00:00:00Z does encode
  to 1704067200000: see \<open>encoded_known_instant\<close>.)
\<close>

theorem timestamp_off_by_one_millisecond:
  "epoch_seconds 0 (Datetime 1970 1 1 0 0 1 1000 (Some 0)) * 1000000
     + microsecond (Datetime 1970 1 1 0 0 1 1000 (Some 0)) = 1001 * 1000
   \<and> (\<exists>r. requests (snd (send_osmand_position (always (Response 200 []))
          ((required_only (PStr ''http://localhost:5055'') (PStr ''robot'') (PInt 10) (PInt 20))
             \<lparr> timestamp := PDatetime (Datetime 1970 1 1 0 0 1 1000 (Some 0)) \<rparr>))) = [r]
        \<and> map_of (query r) ''timestamp'' = Some (PInt 1000))"
  by (simp add: epoch_seconds_example evaluate encoded_example requests_def)

end
